theory Spec2Isabelle
  imports Main "HOL-Library.AList"
begin


section \<open>JavaScript values\<close>

text \<open>
  The values that travel through the handlers and services: what \<open>express.json\<close> and the
  query parser leave in \<open>req.body\<close> and \<open>req.query\<close>, what the services build as payloads,
  and what the remote side answers in \<open>response.data\<close>. An object is the list of its own
  enumerable properties in enumeration order (the keys this program writes are never
  integer-like, so that order is insertion order); a read takes the first binding of a key.
  A number is an integer that a double represents exactly (\<open>JNum\<close>), NaN or an
  infinity: the numbers this program computes come from \<open>parseInt\<close> and from lengths.
  Strings are lists of 8-bit characters.
\<close>

datatype jsval =
    JUndefined
  | JNull
  | JBool bool
  | JNum int
  | JNaN
  | JInfinity
  | JNegInfinity
  | JStr string
  | JArr "jsval list"
  | JObj "(string \<times> jsval) list"

type_synonym props = "(string \<times> jsval) list"

text \<open>\<open>obj[key]\<close> on an own-property list; a missing key reads \<open>undefined\<close>.\<close>

definition getOwn :: "props \<Rightarrow> string \<Rightarrow> jsval" where
  "getOwn ps k = (case map_of ps k of None \<Rightarrow> JUndefined | Some v \<Rightarrow> v)"

text \<open>
  \<open>v.key\<close> for the property names this program reads (none of them is inherited from a
  prototype). On \<open>null\<close> and \<open>undefined\<close> the read throws a TypeError in JavaScript: the
  callers below test \<open>nullish\<close> first wherever the value read from can be one of them.
\<close>

fun field :: "jsval \<Rightarrow> string \<Rightarrow> jsval" where
  "field (JObj ps) k = getOwn ps k"
| "field _ k = JUndefined"

fun nullish :: "jsval \<Rightarrow> bool" where
  "nullish JUndefined = True"
| "nullish JNull = True"
| "nullish _ = False"

text \<open>ToBoolean: what \<open>if (v)\<close>, \<open>!v\<close> and \<open>v || d\<close> test.\<close>

fun truthy :: "jsval \<Rightarrow> bool" where
  "truthy JUndefined = False"
| "truthy JNull = False"
| "truthy (JBool b) = b"
| "truthy (JNum n) = (n \<noteq> 0)"
| "truthy JNaN = False"
| "truthy JInfinity = True"
| "truthy JNegInfinity = True"
| "truthy (JStr s) = (s \<noteq> [])"
| "truthy (JArr xs) = True"
| "truthy (JObj ps) = True"

definition js_or :: "jsval \<Rightarrow> jsval \<Rightarrow> jsval" where
  "js_or a b = (if truthy a then a else b)"

fun isArray :: "jsval \<Rightarrow> bool" where
  "isArray (JArr xs) = True"
| "isArray _ = False"

text \<open>The elements of an array, by index; other values have none.\<close>

fun arrayElements :: "jsval \<Rightarrow> jsval list" where
  "arrayElements (JArr xs) = xs"
| "arrayElements _ = []"

subsection \<open>String forms\<close>

fun digits :: "nat \<Rightarrow> string" where
  "digits n =
     (if n < 10 then [char_of (48 + n)]
      else digits (n div 10) @ [char_of (48 + n mod 10)])"

text \<open>
  The double nearest to a natural number, ties to the even significand: up to 53 bits
  the number itself, above that the 53 leading bits rounded; \<open>None\<close> when the result is
  beyond the largest double, where the Number value is an infinity.
\<close>

fun bitLength :: "nat \<Rightarrow> nat" where
  "bitLength n = (if n = 0 then 0 else Suc (bitLength (n div 2)))"

definition nearestDouble :: "nat \<Rightarrow> nat option" where
  "nearestDouble n =
     (if bitLength n \<le> 53 then Some n
      else let e = bitLength n - 53;
               q = n div 2 ^ e;
               r = n mod 2 ^ e;
               half = 2 ^ (e - 1);
               q' = (if r > half \<or> (r = half \<and> odd q) then q + 1 else q);
               v = q' * 2 ^ e
           in if v \<ge> 2 ^ 1024 then None else Some v)"

text \<open>The Number value of a mathematical integer.\<close>

definition toNumber :: "int \<Rightarrow> jsval" where
  "toNumber i =
     (case nearestDouble (nat \<bar>i\<bar>) of
        None \<Rightarrow> if i < 0 then JNegInfinity else JInfinity
      | Some m \<Rightarrow> JNum (if i < 0 then - int m else int m))"

text \<open>
  \<open>Number.prototype.toString\<close> on an integer-valued double \<open>m\<close>: the decimal with the fewest
  significant digits that still rounds to \<open>m\<close>, the closest one where several do. With \<open>k\<close>
  significant digits the two decimals next to \<open>m\<close> are tried. Below \<open>10^21\<close> the decimal is
  written out in full, from there on in exponent form.
\<close>

definition candidate :: "nat \<Rightarrow> nat \<Rightarrow> nat option" where
  "candidate m k =
     (let p = 10 ^ (length (digits m) - k);
          lo = (m div p) * p;
          hi = lo + p;
          okLo = (nearestDouble lo = Some m);
          okHi = (nearestDouble hi = Some m)
      in if okLo \<and> okHi
         then Some (if m - lo < hi - m then lo
                    else if hi - m < m - lo then hi
                    else if even (m div p) then lo else hi)
         else if okLo then Some lo
         else if okHi then Some hi
         else None)"

definition shortestDecimal :: "nat \<Rightarrow> nat" where
  "shortestDecimal m =
     (case List.map_filter (candidate m) [1..<Suc (length (digits m))] of
        [] \<Rightarrow> m
      | v # _ \<Rightarrow> v)"

definition exponentForm :: "nat \<Rightarrow> string" where
  "exponentForm v =
     (let ds = digits v;
          significant = rev (dropWhile (\<lambda>c. c = CHR ''0'') (rev ds))
      in (case significant of
            [] \<Rightarrow> []
          | d # rest \<Rightarrow> d # (if rest = [] then [] else CHR ''.'' # rest))
         @ ''e+'' @ digits (length ds - 1))"

definition naturalToString :: "nat \<Rightarrow> string" where
  "naturalToString m =
     (let v = shortestDecimal m in if v < 10 ^ 21 then digits v else exponentForm v)"

definition numberToString :: "int \<Rightarrow> string" where
  "numberToString n =
     (case nearestDouble (nat \<bar>n\<bar>) of
        None \<Rightarrow> if n < 0 then ''-Infinity'' else ''Infinity''
      | Some m \<Rightarrow> if n < 0 then CHR ''-'' # naturalToString m else naturalToString m)"

fun join :: "string \<Rightarrow> string list \<Rightarrow> string" where
  "join sep [] = []"
| "join sep [s] = s"
| "join sep (s # t # ss) = s @ sep @ join sep (t # ss)"

fun sequence :: "'a option list \<Rightarrow> 'a list option" where
  "sequence [] = Some []"
| "sequence (None # xs) = None"
| "sequence (Some x # xs) = (case sequence xs of None \<Rightarrow> None | Some ys \<Rightarrow> Some (x # ys))"

text \<open>
  ToString, as applied by \<open>RegExp.prototype.test\<close>, \<open>parseInt\<close>, template literals,
  \<open>Array.prototype.join\<close> and by the call \<open>value.toString()\<close>. \<open>None\<close> is the TypeError
  raised for an object whose own property \<open>toString\<close> shadows the inherited method (parsed
  data is never callable). Inside an array \<open>null\<close> and \<open>undefined\<close> print as the empty string.
\<close>

fun toString :: "jsval \<Rightarrow> string option"
  and elementString :: "jsval \<Rightarrow> string option" where
  "toString JUndefined = Some ''undefined''"
| "toString JNull = Some ''null''"
| "toString (JBool b) = Some (if b then ''true'' else ''false'')"
| "toString (JNum n) = Some (numberToString n)"
| "toString JNaN = Some ''NaN''"
| "toString JInfinity = Some ''Infinity''"
| "toString JNegInfinity = Some ''-Infinity''"
| "toString (JStr s) = Some s"
| "toString (JArr xs) = map_option (join '','') (sequence (map elementString xs))"
| "toString (JObj ps) =
     (if ''toString'' \<in> fst ` set ps then None else Some ''[object Object]'')"
| "elementString JUndefined = Some []"
| "elementString JNull = Some []"
| "elementString (JBool b) = toString (JBool b)"
| "elementString (JNum n) = toString (JNum n)"
| "elementString JNaN = toString JNaN"
| "elementString JInfinity = toString JInfinity"
| "elementString JNegInfinity = toString JNegInfinity"
| "elementString (JStr s) = toString (JStr s)"
| "elementString (JArr xs) = toString (JArr xs)"
| "elementString (JObj ps) = toString (JObj ps)"

subsection \<open>Regular expression and integer parsing\<close>

text \<open>
  White space as \<open>\s\<close> and \<open>parseInt\<close> see it, within the 8-bit range: tab, line feed,
  vertical tab, form feed, carriage return, space and no-break space.
\<close>

definition js_space :: "char \<Rightarrow> bool" where
  "js_space c = (of_char c \<in> {9, 10, 11, 12, 13, 32, 160 :: nat})"

text \<open>
  The fragment of regular expressions the handlers use, anchored at both ends: a literal
  character, or a character class repeated one or more times.
\<close>

datatype rx = Lit char | Plus "char \<Rightarrow> bool"

fun rx_match :: "rx list \<Rightarrow> string \<Rightarrow> bool" where
  "rx_match [] s = (s = [])"
| "rx_match (Lit c # r) [] = False"
| "rx_match (Lit c # r) (x # xs) = (x = c \<and> rx_match r xs)"
| "rx_match (Plus P # r) [] = False"
| "rx_match (Plus P # r) (x # xs) = (P x \<and> (rx_match (Plus P # r) xs \<or> rx_match r xs))"

text \<open>The class \<open>[^\s@]\<close> and the pattern \<open>/^[^\s@]+@[^\s@]+\.[^\s@]+$/\<close>.\<close>

definition notSpaceAt :: "char \<Rightarrow> bool" where
  "notSpaceAt c = (\<not> js_space c \<and> c \<noteq> CHR ''@'')"

definition emailRegex :: "rx list" where
  "emailRegex = [Plus notSpaceAt, Lit CHR ''@'', Plus notSpaceAt, Lit CHR ''.'', Plus notSpaceAt]"

text \<open>
  \<open>emailRegex.test(v)\<close>: the argument is converted to a string first; \<open>None\<close> is the
  TypeError of that conversion.
\<close>

definition emailRegex_test :: "jsval \<Rightarrow> bool option" where
  "emailRegex_test v = map_option (rx_match emailRegex) (toString v)"

definition digitValue :: "nat \<Rightarrow> char \<Rightarrow> nat option" where
  "digitValue radix c =
     (let n = of_char c :: nat;
          d = (if 48 \<le> n \<and> n \<le> 57 then Some (n - 48)
               else if 97 \<le> n \<and> n \<le> 122 then Some (n - 87)
               else if 65 \<le> n \<and> n \<le> 90 then Some (n - 55)
               else None)
      in case d of None \<Rightarrow> None | Some k \<Rightarrow> if k < radix then Some k else None)"

text \<open>
  \<open>parseInt(string)\<close> without a radix: leading white space is skipped, a sign is read, a
  prefix \<open>0x\<close> or \<open>0X\<close> selects radix 16, and the longest run of digits is read; without
  a digit the result is NaN, otherwise the Number value of the integer read (correctly
  rounded, an infinity when it is beyond the doubles).
\<close>

definition parseIntString :: "string \<Rightarrow> jsval" where
  "parseIntString s =
     (let s1 = dropWhile js_space s;
          (sign, s2) = (case s1 of
                          c # r \<Rightarrow> if c = CHR ''-'' then (- 1, r)
                                   else if c = CHR ''+'' then (1, r) else (1, s1)
                        | [] \<Rightarrow> (1 :: int, s1));
          (radix, s3) = (case s2 of
                           a # b # r \<Rightarrow>
                             if a = CHR ''0'' \<and> (b = CHR ''x'' \<or> b = CHR ''X'') then (16, r)
                             else (10 :: nat, s2)
                         | _ \<Rightarrow> (10, s2));
          z = takeWhile (\<lambda>c. digitValue radix c \<noteq> None) s3
      in if z = [] then JNaN
         else toNumber (sign * int (foldl (\<lambda>acc c. acc * radix + the (digitValue radix c)) 0 z)))"

text \<open>\<open>parseInt(v)\<close> on any value; \<open>None\<close> is the TypeError of ToString.\<close>

definition parseInt :: "jsval \<Rightarrow> jsval option" where
  "parseInt v = map_option parseIntString (toString v)"

text \<open>\<open>n < k\<close> and \<open>n > k\<close> for a Number \<open>n\<close> and an integer \<open>k\<close>; false for NaN.\<close>

fun belowInt :: "jsval \<Rightarrow> int \<Rightarrow> bool" where
  "belowInt (JNum n) k = (n < k)"
| "belowInt JNegInfinity k = True"
| "belowInt _ k = False"

fun aboveInt :: "jsval \<Rightarrow> int \<Rightarrow> bool" where
  "aboveInt (JNum n) k = (n > k)"
| "aboveInt JInfinity k = True"
| "aboveInt _ k = False"

section \<open>The remote side\<close>

datatype http_method = GET | POST | PATCH | DELETE

record request =
  rq_method :: http_method
  rq_url :: string
  rq_data :: jsval

text \<open>
  What can be thrown: the HTTP client's error (its message and, when the server answered,
  the status and body of the response), a TypeError of the runtime, or a plain object
  thrown by a service.
\<close>

datatype js_error =
    AxiosError string "(int \<times> jsval) option"
  | TypeError string
  | Thrown jsval

text \<open>\<open>error.message\<close>, \<open>error.response?.status\<close> and \<open>error.response?.data\<close>.\<close>

fun errorMessage :: "js_error \<Rightarrow> jsval" where
  "errorMessage (AxiosError m r) = JStr m"
| "errorMessage (TypeError m) = JStr m"
| "errorMessage (Thrown v) = field v ''message''"

fun responseStatus :: "js_error \<Rightarrow> jsval" where
  "responseStatus (AxiosError m (Some (st, d))) = JNum st"
| "responseStatus (AxiosError m None) = JUndefined"
| "responseStatus (TypeError m) = JUndefined"
| "responseStatus (Thrown v) =
     (if nullish (field v ''response'') then JUndefined else field (field v ''response'') ''status'')"

fun responseData :: "js_error \<Rightarrow> jsval" where
  "responseData (AxiosError m (Some (st, d))) = d"
| "responseData (AxiosError m None) = JUndefined"
| "responseData (TypeError m) = JUndefined"
| "responseData (Thrown v) =
     (if nullish (field v ''response'') then JUndefined else field (field v ''response'') ''data'')"

text \<open>The TypeError of reading property \<open>k\<close> of \<open>null\<close> or \<open>undefined\<close>.\<close>

definition readError :: "jsval \<Rightarrow> string \<Rightarrow> js_error" where
  "readError v k =
     TypeError (''Cannot read properties of '' @ (if v = JNull then ''null'' else ''undefined'')
                @ '' (reading '' @ [CHR 0x27] @ k @ [CHR 0x27] @ '')'')"

text \<open>The TypeError of converting an object without a usable \<open>toString\<close> to a string.\<close>

definition convertError :: js_error where
  "convertError = TypeError ''Cannot convert object to primitive value''"

text \<open>
  \<open>error.key\<close> in a handler's \<open>catch\<close> block, for the keys \<open>error\<close> and \<open>details\<close>, which
  only the objects thrown by the services carry.
\<close>

fun errorField :: "js_error \<Rightarrow> string \<Rightarrow> jsval" where
  "errorField (Thrown v) k = field v k"
| "errorField _ k = JUndefined"

text \<open>
  The remote CRM is the environment: it answers a request, given the requests this run
  has already sent, with the \<open>data\<close> of a response or with a rejection (a message and,
  when the server answered, the status and body of its response). A computation
  takes the requests sent so far and returns its outcome with the extended list, so that
  "no remote call was made" is "the list is unchanged". Console logging does not influence
  any result and is left out of the services and handlers.
\<close>

datatype axios_outcome = Resolved jsval | Rejected string "(int \<times> jsval) option"

type_synonym remote = "request list \<Rightarrow> request \<Rightarrow> axios_outcome"

type_synonym 'a io = "request list \<Rightarrow> 'a \<times> request list"

definition axios :: "remote \<Rightarrow> request \<Rightarrow> (js_error + jsval) io" where
  "axios R rq sent =
     (case R sent rq of Resolved d \<Rightarrow> Inr d | Rejected m r \<Rightarrow> Inl (AxiosError m r),
      sent @ [rq])"

text \<open>The endpoint table of \<open>config.endpoints\<close>.\<close>

definition endpoint_contacts :: string where
  "endpoint_contacts = ''/crm/v3/objects/contacts''"

definition endpoint_contactsSearch :: string where
  "endpoint_contactsSearch = ''/crm/v3/objects/contacts/search''"

definition endpoint_contactsBatch :: string where
  "endpoint_contactsBatch = ''/crm/v3/objects/contacts/batch''"

definition endpoint_properties :: string where
  "endpoint_properties = ''/crm/v3/properties/contacts''"

text \<open>
  The object every contact operation throws from its \<open>catch\<close> block:
  \<open>{ success: false, error: error.message, details: error.response?.data || null }\<close>.
\<close>

definition serviceFailure :: "js_error \<Rightarrow> js_error" where
  "serviceFailure e =
     Thrown (JObj [(''success'', JBool False), (''error'', errorMessage e),
                   (''details'', js_or (responseData e) JNull)])"

section \<open>HubSpotService\<close>

subsection \<open>createContact\<close>

text \<open>The object literal \<open>properties\<close> of \<open>createContact\<close>.\<close>

definition createContact_literal :: "jsval \<Rightarrow> props" where
  "createContact_literal contactData =
     [(''firstname'', field contactData ''firstName''),
      (''lastname'', field contactData ''lastName''),
      (''email'', field contactData ''email''),
      (''phone'', field contactData ''phone''),
      (''hubspot_owner_id'', field contactData ''ownerId''),
      (''candidate_experience'', field contactData ''candidateExperience''),
      (''candidate_date_of_joining'', field contactData ''candidateDateOfJoining''),
      (''candidate_name'', field contactData ''candidateName''),
      (''candidate_past_company'', field contactData ''candidatePastCompany'')]"

text \<open>
  \<open>Object.keys(properties).forEach(key => { if (properties[key] === undefined ||
  properties[key] === null || properties[key] === '') delete properties[key]; })\<close>
\<close>

definition stripEmpty :: "props \<Rightarrow> props" where
  "stripEmpty properties =
     fold (\<lambda>key ps.
             if getOwn ps key = JUndefined \<or> getOwn ps key = JNull \<or> getOwn ps key = JStr []
             then AList.delete key ps else ps)
          (map fst properties) properties"

definition createContact_properties :: "jsval \<Rightarrow> props" where
  "createContact_properties contactData = stripEmpty (createContact_literal contactData)"

definition createContact :: "string \<Rightarrow> remote \<Rightarrow> jsval \<Rightarrow> (js_error + jsval) io" where
  "createContact baseUrl R contactData sent =
     (if nullish contactData
      then (Inl (serviceFailure (readError contactData ''firstName'')), sent)
      else
        let payload = JObj [(''properties'', JObj (createContact_properties contactData))];
            (res, sent') =
               axios R \<lparr>rq_method = POST, rq_url = baseUrl @ endpoint_contacts,
                        rq_data = payload\<rparr> sent
        in case res of
             Inl e \<Rightarrow> (Inl (serviceFailure e), sent')
           | Inr d \<Rightarrow>
               if nullish d then (Inl (serviceFailure (readError d ''id'')), sent')
               else (Inr (JObj [(''success'', JBool True), (''contact'', d),
                                (''contactId'', field d ''id'')]), sent'))"

subsection \<open>updateContact\<close>

text \<open>
  One line of the mapping:
  \<open>if (updateData.src !== undefined) properties.dst = updateData.src;\<close>
\<close>

definition copyDefined :: "jsval \<Rightarrow> string \<Rightarrow> string \<Rightarrow> props \<Rightarrow> props" where
  "copyDefined source src dst target =
     (if field source src \<noteq> JUndefined then AList.update dst (field source src) target
      else target)"

definition updateContact_properties :: "jsval \<Rightarrow> props" where
  "updateContact_properties updateData =
     (copyDefined updateData ''candidatePastCompany'' ''candidate_past_company''
      \<circ> copyDefined updateData ''candidateName'' ''candidate_name''
      \<circ> copyDefined updateData ''candidateDateOfJoining'' ''candidate_date_of_joining''
      \<circ> copyDefined updateData ''candidateExperience'' ''candidate_experience''
      \<circ> copyDefined updateData ''ownerId'' ''hubspot_owner_id''
      \<circ> copyDefined updateData ''phone'' ''phone''
      \<circ> copyDefined updateData ''email'' ''email''
      \<circ> copyDefined updateData ''lastName'' ''lastname''
      \<circ> copyDefined updateData ''firstName'' ''firstname'') []"

text \<open>
  \<open>contactId\<close> is spliced into the URL by a template literal; the handler passes the
  string \<open>req.params.id\<close>.
\<close>

definition updateContact :: "string \<Rightarrow> remote \<Rightarrow> string \<Rightarrow> jsval \<Rightarrow> (js_error + jsval) io" where
  "updateContact baseUrl R contactId updateData sent =
     (if nullish updateData
      then (Inl (serviceFailure (readError updateData ''firstName'')), sent)
      else
        let payload = JObj [(''properties'', JObj (updateContact_properties updateData))];
            (res, sent') =
               axios R \<lparr>rq_method = PATCH,
                        rq_url = baseUrl @ endpoint_contacts @ ''/'' @ contactId,
                        rq_data = payload\<rparr> sent
        in case res of
             Inl e \<Rightarrow> (Inl (serviceFailure e), sent')
           | Inr d \<Rightarrow>
               if nullish d then (Inl (serviceFailure (readError d ''id'')), sent')
               else (Inr (JObj [(''success'', JBool True), (''contact'', d),
                                (''contactId'', field d ''id'')]), sent'))"

subsection \<open>getContact\<close>

definition getContact_defaultProps :: "string list" where
  "getContact_defaultProps =
     [''firstname'', ''lastname'', ''email'', ''phone'', ''hubspot_owner_id'',
      ''candidate_experience'', ''candidate_date_of_joining'',
      ''candidate_name'', ''candidate_past_company'']"

text \<open>
  \<open>getContact(contactId, properties = null)\<close>. The query string is the given property
  list (an array is joined with commas, which is its string form; anything else goes
  through the template literal) or the default list. A rejection whose response status is
  404 is returned as a result; every other failure inside \<open>try\<close>, the TypeErrors included,
  is thrown as a service failure.
\<close>

definition getContact :: "string \<Rightarrow> remote \<Rightarrow> string \<Rightarrow> jsval \<Rightarrow> (js_error + jsval) io" where
  "getContact baseUrl R contactId properties0 sent =
     (let properties = (if properties0 = JUndefined then JNull else properties0);
          url = baseUrl @ endpoint_contacts @ ''/'' @ contactId;
          propsParam = (if truthy properties then toString properties
                        else Some (join '','' getContact_defaultProps))
      in case propsParam of
           None \<Rightarrow> (Inl (serviceFailure convertError), sent)
         | Some q \<Rightarrow>
             let (res, sent') =
                   axios R \<lparr>rq_method = GET, rq_url = url @ ''?properties='' @ q,
                            rq_data = JUndefined\<rparr> sent
             in case res of
                  Inl e \<Rightarrow>
                    if responseStatus e = JNum 404
                    then (Inr (JObj [(''success'', JBool False),
                                     (''error'', JStr ''Contact not found''),
                                     (''contactId'', JStr contactId)]), sent')
                    else (Inl (serviceFailure e), sent')
                | Inr d \<Rightarrow>
                    if nullish d then (Inl (serviceFailure (readError d ''id'')), sent')
                    else (Inr (JObj [(''success'', JBool True), (''contact'', d)]), sent'))"

subsection \<open>searchContacts\<close>

definition searchContacts_properties :: "string list" where
  "searchContacts_properties =
     [''firstname'', ''lastname'', ''email'', ''phone'', ''hubspot_owner_id'',
      ''candidate_experience'', ''candidate_date_of_joining'',
      ''candidate_name'', ''candidate_past_company'']"

text \<open>
  \<open>Object.entries(v)\<close> for a value that is not \<open>null\<close> or \<open>undefined\<close>: the own properties
  of an object, the indexed elements of an array or string, nothing for a number or a
  boolean.
\<close>

fun ownEntries :: "jsval \<Rightarrow> props" where
  "ownEntries (JObj ps) = ps"
| "ownEntries (JArr xs) = zip (map digits [0..<length xs]) xs"
| "ownEntries (JStr s) = zip (map digits [0..<length s]) (map (\<lambda>c. JStr [c]) s)"
| "ownEntries _ = []"

text \<open>
  The body of the \<open>forEach\<close> over the entries: one predicate for a value that is neither
  \<open>undefined\<close> nor \<open>null\<close>; \<open>None\<close> is the TypeError of \<open>value.toString()\<close>.
\<close>

definition filterPredicate :: "string \<times> jsval \<Rightarrow> jsval list option" where
  "filterPredicate entry =
     (case entry of (property, v) \<Rightarrow>
        if v \<noteq> JUndefined \<and> v \<noteq> JNull
        then (case toString v of
                None \<Rightarrow> None
              | Some s \<Rightarrow> Some [JObj [(''propertyName'', JStr property),
                                      (''operator'', JStr ''EQ''), (''value'', JStr s)]])
        else Some [])"

definition searchPayload :: "props \<Rightarrow> jsval \<Rightarrow> jsval option" where
  "searchPayload entries limit =
     (case sequence (map filterPredicate entries) of
        None \<Rightarrow> None
      | Some found \<Rightarrow>
          let filterArray = concat found;
              filterGroups = (if length entries > 0 \<and> length filterArray > 0
                              then [JObj [(''filters'', JArr filterArray)]] else [])
          in Some (JObj [(''filterGroups'', JArr filterGroups),
                         (''properties'', JArr (map JStr searchContacts_properties)),
                         (''limit'', limit)]))"

text \<open>
  The TypeError that ends the \<open>forEach\<close> at the first value without a string form: on an
  object whose own property shadows the method the call \<open>value.toString()\<close> is not a
  function; an array holding such an object fails inside its \<open>join\<close>.
\<close>

definition toStringCallError :: "props \<Rightarrow> js_error" where
  "toStringCallError entries =
     (case find (\<lambda>entry. filterPredicate entry = None) entries of
        Some (property, JObj ps) \<Rightarrow> TypeError ''value.toString is not a function''
      | _ \<Rightarrow> convertError)"

text \<open>\<open>searchContacts(filters = {}, limit = 10)\<close>.\<close>

definition searchContacts :: "string \<Rightarrow> remote \<Rightarrow> jsval \<Rightarrow> jsval \<Rightarrow> (js_error + jsval) io" where
  "searchContacts baseUrl R filters0 limit0 sent =
     (let filters = (if filters0 = JUndefined then JObj [] else filters0);
          limit = (if limit0 = JUndefined then JNum 10 else limit0)
      in if filters = JNull
         then (Inl (serviceFailure (TypeError ''Cannot convert undefined or null to object'')),
               sent)
         else case searchPayload (ownEntries filters) limit of
                None \<Rightarrow> (Inl (serviceFailure (toStringCallError (ownEntries filters))), sent)
              | Some payload \<Rightarrow>
                  let (res, sent') =
                        axios R \<lparr>rq_method = POST, rq_url = baseUrl @ endpoint_contactsSearch,
                                 rq_data = payload\<rparr> sent
                  in case res of
                       Inl e \<Rightarrow> (Inl (serviceFailure e), sent')
                     | Inr d \<Rightarrow>
                         if nullish d
                         then (Inl (serviceFailure (readError d ''total'')), sent')
                         else if nullish (field d ''results'')
                         then (Inl (serviceFailure (readError (field d ''results'') ''length'')),
                               sent')
                         else (Inr (JObj [(''success'', JBool True),
                                          (''contacts'', field d ''results''),
                                          (''total'', field d ''total'')]), sent'))"

subsection \<open>batchCreateContacts\<close>

text \<open>The object literal that \<open>contactsData.map\<close> builds for one item.\<close>

definition batchCreateContacts_literal :: "jsval \<Rightarrow> props" where
  "batchCreateContacts_literal contactData =
     [(''firstname'', field contactData ''firstName''),
      (''lastname'', field contactData ''lastName''),
      (''email'', field contactData ''email''),
      (''phone'', field contactData ''phone''),
      (''hubspot_owner_id'', field contactData ''ownerId''),
      (''candidate_experience'', field contactData ''candidateExperience''),
      (''candidate_date_of_joining'', field contactData ''candidateDateOfJoining''),
      (''candidate_name'', field contactData ''candidateName''),
      (''candidate_past_company'', field contactData ''candidatePastCompany'')]"

definition batchCreateContacts_inputs :: "jsval list \<Rightarrow> jsval list" where
  "batchCreateContacts_inputs contactsData =
     map (\<lambda>contactData. JObj [(''properties'', JObj (batchCreateContacts_literal contactData))])
         contactsData"

text \<open>
  Only an array has \<open>map\<close>; reading a field of a \<open>null\<close> item is a TypeError, like every
  failure inside \<open>try\<close> it is thrown as a service failure before any request is sent.
\<close>

definition batchCreateContacts :: "string \<Rightarrow> remote \<Rightarrow> jsval \<Rightarrow> (js_error + jsval) io" where
  "batchCreateContacts baseUrl R contactsData sent =
     (case contactsData of
        JArr xs \<Rightarrow>
          (case find nullish xs of
             Some x \<Rightarrow> (Inl (serviceFailure (readError x ''firstName'')), sent)
           | None \<Rightarrow>
               let (res, sent') =
                     axios R \<lparr>rq_method = POST,
                              rq_url = baseUrl @ endpoint_contactsBatch @ ''/create'',
                              rq_data = JObj [(''inputs'', JArr (batchCreateContacts_inputs xs))]\<rparr>
                           sent
               in case res of
                    Inl e \<Rightarrow> (Inl (serviceFailure e), sent')
                  | Inr d \<Rightarrow>
                      if nullish d
                      then (Inl (serviceFailure (readError d ''results'')), sent')
                      else if nullish (field d ''results'')
                      then (Inl (serviceFailure (readError (field d ''results'') ''length'')),
                            sent')
                      else (Inr (JObj [(''success'', JBool True),
                                       (''contacts'', field d ''results'')]), sent'))
      | _ \<Rightarrow>
          (Inl (serviceFailure
                  (if nullish contactsData then readError contactsData ''length''
                   else TypeError ''contactsData.map is not a function'')), sent))"

text \<open>
  What \<open>JSON.stringify\<close> puts on the wire for a payload: a property whose value is
  \<open>undefined\<close> is left out of its object, an \<open>undefined\<close> array element is sent as \<open>null\<close>,
  and so are NaN and the infinities.
\<close>

fun wire :: "jsval \<Rightarrow> jsval"
  and wireElement :: "jsval \<Rightarrow> jsval"
  and wireProps :: "props \<Rightarrow> props" where
  "wire (JObj ps) = JObj (wireProps ps)"
| "wire (JArr xs) = JArr (map wireElement xs)"
| "wire JUndefined = JUndefined"
| "wire JNull = JNull"
| "wire (JBool b) = JBool b"
| "wire (JNum n) = JNum n"
| "wire JNaN = JNull"
| "wire JInfinity = JNull"
| "wire JNegInfinity = JNull"
| "wire (JStr s) = JStr s"
| "wireElement JUndefined = JNull"
| "wireElement JNull = JNull"
| "wireElement (JBool b) = JBool b"
| "wireElement (JNum n) = JNum n"
| "wireElement JNaN = JNull"
| "wireElement JInfinity = JNull"
| "wireElement JNegInfinity = JNull"
| "wireElement (JStr s) = JStr s"
| "wireElement (JArr xs) = wire (JArr xs)"
| "wireElement (JObj ps) = wire (JObj ps)"
| "wireProps [] = []"
| "wireProps ((k, v) # ps) =
     (if v = JUndefined then wireProps ps else (k, wire v) # wireProps ps)"

section \<open>PropertiesService\<close>

definition getCustomPropertiesDefinitions :: "jsval list" where
  "getCustomPropertiesDefinitions =
     [JObj [(''name'', JStr ''candidate_experience''),
            (''label'', JStr ''Candidate Experience''),
            (''description'', JStr ''Years of professional experience''),
            (''groupName'', JStr ''contactinformation''),
            (''type'', JStr ''number''),
            (''fieldType'', JStr ''number'')],
      JObj [(''name'', JStr ''candidate_date_of_joining''),
            (''label'', JStr ''Candidate Date of Joining''),
            (''description'', JStr ''Expected or actual date of joining''),
            (''groupName'', JStr ''contactinformation''),
            (''type'', JStr ''date''),
            (''fieldType'', JStr ''date'')],
      JObj [(''name'', JStr ''candidate_name''),
            (''label'', JStr ''Candidate Name''),
            (''description'', JStr ''Full name of the candidate''),
            (''groupName'', JStr ''contactinformation''),
            (''type'', JStr ''string''),
            (''fieldType'', JStr ''text'')],
      JObj [(''name'', JStr ''candidate_past_company''),
            (''label'', JStr ''Candidate Past Company''),
            (''description'', JStr ''Previous company or current employer''),
            (''groupName'', JStr ''contactinformation''),
            (''type'', JStr ''string''),
            (''fieldType'', JStr ''text'')]]"

text \<open>
  \<open>createProperty(propertyDefinition)\<close>. The log lines splice \<open>propertyDefinition.name\<close>
  into a template literal, so a definition that is \<open>null\<close> or whose name has no string form
  throws a TypeError before the request (once in \<open>try\<close>, and again from the log line of the
  \<open>catch\<close> block). A rejection with response status 409 is returned as the result
  \<open>{ name, status: 'already_exists' }\<close>; any other error is thrown again as it is.
\<close>

definition createProperty :: "string \<Rightarrow> remote \<Rightarrow> jsval \<Rightarrow> (js_error + jsval) io" where
  "createProperty baseUrl R propertyDefinition sent =
     (if nullish propertyDefinition
      then (Inl (readError propertyDefinition ''name''), sent)
      else if toString (field propertyDefinition ''name'') = None
      then (Inl convertError, sent)
      else
        let (res, sent') =
              axios R \<lparr>rq_method = POST, rq_url = baseUrl @ endpoint_properties,
                       rq_data = propertyDefinition\<rparr> sent
        in case res of
             Inr d \<Rightarrow>
               if nullish d then (Inl (readError d ''name''), sent') else (Inr d, sent')
           | Inl e \<Rightarrow>
               if responseStatus e = JNum 409
               then (Inr (JObj [(''name'', field propertyDefinition ''name''),
                                (''status'', JStr ''already_exists'')]), sent')
               else (Inl e, sent'))"

text \<open>
  The loop of \<open>createAllCustomProperties\<close>: one entry is pushed for every definition,
  whether \<open>createProperty\<close> returned or threw. The pause of 100 ms after a success is not
  modelled.
\<close>

fun createAll_loop :: "string \<Rightarrow> remote \<Rightarrow> jsval list \<Rightarrow> jsval list \<Rightarrow> (jsval list) io" where
  "createAll_loop baseUrl R [] results sent = (results, sent)"
| "createAll_loop baseUrl R (property # rest) results sent =
     (let (r, sent') = createProperty baseUrl R property sent;
          entry = (case r of
                     Inr result \<Rightarrow> JObj [(''name'', field property ''name''),
                                          (''success'', JBool True), (''data'', result)]
                   | Inl e \<Rightarrow> JObj [(''name'', field property ''name''),
                                    (''success'', JBool False), (''error'', errorMessage e)])
      in createAll_loop baseUrl R rest (results @ [entry]) sent')"

definition createAllCustomProperties :: "string \<Rightarrow> remote \<Rightarrow> (jsval list) io" where
  "createAllCustomProperties baseUrl R sent =
     createAll_loop baseUrl R getCustomPropertiesDefinitions [] sent"

section \<open>Routes\<close>

record response =
  status :: nat
  body :: jsval

text \<open>
  The \<open>catch\<close> block of every contacts route:
  \<open>res.status(500).json({ success: false, error: error.error || 'Internal server error',
  details: error.details || null })\<close>.
\<close>

definition contactsError :: "js_error \<Rightarrow> response" where
  "contactsError e =
     \<lparr>status = 500,
      body = JObj [(''success'', JBool False),
                   (''error'', js_or (errorField e ''error'') (JStr ''Internal server error'')),
                   (''details'', js_or (errorField e ''details'') JNull)]\<rparr>"

text \<open>The global error handler of \<open>index.js\<close>, which receives what a middleware throws.\<close>

definition globalError :: "js_error \<Rightarrow> response" where
  "globalError e =
     \<lparr>status = 500,
      body = JObj [(''success'', JBool False), (''error'', JStr ''Internal server error''),
                   (''message'', errorMessage e)]\<rparr>"

subsection \<open>Validation middleware of POST /api/contacts\<close>

text \<open>The TypeError of destructuring a body that is \<open>undefined\<close> or \<open>null\<close>.\<close>

definition destructureError :: "jsval \<Rightarrow> js_error" where
  "destructureError v =
     TypeError (''Cannot destructure property '' @ [CHR 0x27] @ ''firstName'' @ [CHR 0x27]
                @ '' of '' @ [CHR 0x27] @ ''req.body'' @ [CHR 0x27] @ '' as it is ''
                @ (if v = JNull then ''null'' else ''undefined'') @ ''.'')"

datatype middleware = Next | Respond response

definition validateContactData :: "jsval \<Rightarrow> middleware" where
  "validateContactData reqBody =
     (if nullish reqBody then Respond (globalError (destructureError reqBody))
      else if \<not> truthy (field reqBody ''firstName'') \<or> \<not> truthy (field reqBody ''lastName'')
              \<or> \<not> truthy (field reqBody ''email'')
      then Respond \<lparr>status = 400,
                    body = JObj [(''success'', JBool False),
                                 (''error'', JStr ''Missing required fields: firstName, lastName, and email are required'')]\<rparr>
      else case emailRegex_test (field reqBody ''email'') of
             None \<Rightarrow> Respond (globalError convertError)
           | Some False \<Rightarrow>
               Respond \<lparr>status = 400,
                        body = JObj [(''success'', JBool False),
                                     (''error'', JStr ''Invalid email format'')]\<rparr>
           | Some True \<Rightarrow> Next)"

subsection \<open>GET /api/contacts/:id\<close>

definition get_contact :: "string \<Rightarrow> remote \<Rightarrow> string \<Rightarrow> response io" where
  "get_contact baseUrl R contactId sent =
     (let (r, sent') = getContact baseUrl R contactId JUndefined sent
      in case r of
           Inl e \<Rightarrow> (contactsError e, sent')
         | Inr result \<Rightarrow>
             if \<not> truthy (field result ''success'')
             then (\<lparr>status = 404,
                    body = JObj [(''success'', JBool False), (''error'', field result ''error''),
                                 (''contactId'', JStr contactId)]\<rparr>, sent')
             else (\<lparr>status = 200,
                    body = JObj [(''success'', JBool True),
                                 (''data'', JObj
                                    [(''contactId'', field (field result ''contact'') ''id''),
                                     (''properties'', field (field result ''contact'') ''properties''),
                                     (''createdAt'', field (field result ''contact'') ''createdAt''),
                                     (''updatedAt'', field (field result ''contact'') ''updatedAt'')])]\<rparr>,
                   sent'))"

subsection \<open>PATCH /api/contacts/:id\<close>

text \<open>
  \<open>updateData\<close>: each of the nine fields that is not \<open>undefined\<close> in the body is copied
  under its own name.
\<close>

definition patch_updateData :: "jsval \<Rightarrow> props" where
  "patch_updateData reqBody =
     (copyDefined reqBody ''candidatePastCompany'' ''candidatePastCompany''
      \<circ> copyDefined reqBody ''candidateName'' ''candidateName''
      \<circ> copyDefined reqBody ''candidateDateOfJoining'' ''candidateDateOfJoining''
      \<circ> copyDefined reqBody ''candidateExperience'' ''candidateExperience''
      \<circ> copyDefined reqBody ''ownerId'' ''ownerId''
      \<circ> copyDefined reqBody ''phone'' ''phone''
      \<circ> copyDefined reqBody ''email'' ''email''
      \<circ> copyDefined reqBody ''lastName'' ''lastName''
      \<circ> copyDefined reqBody ''firstName'' ''firstName'') []"

text \<open>
  The email check \<open>if (updateData.email) { if (!emailRegex.test(updateData.email)) ... }\<close>:
  \<open>Inl\<close> is the response that ends the request, \<open>Inr ()\<close> lets it continue.
\<close>

definition patch_emailCheck :: "props \<Rightarrow> response + unit" where
  "patch_emailCheck updateData =
     (if truthy (getOwn updateData ''email'')
      then (case emailRegex_test (getOwn updateData ''email'') of
              None \<Rightarrow> Inl (contactsError convertError)
            | Some False \<Rightarrow>
                Inl \<lparr>status = 400,
                     body = JObj [(''success'', JBool False),
                                  (''error'', JStr ''Invalid email format'')]\<rparr>
            | Some True \<Rightarrow> Inr ())
      else Inr ())"

definition patch_contact :: "string \<Rightarrow> remote \<Rightarrow> string \<Rightarrow> jsval \<Rightarrow> response io" where
  "patch_contact baseUrl R contactId reqBody sent =
     (if nullish reqBody then (contactsError (readError reqBody ''firstName''), sent)
      else
        let updateData = patch_updateData reqBody
        in case patch_emailCheck updateData of
             Inl res \<Rightarrow> (res, sent)
           | Inr _ \<Rightarrow>
               if length (map fst updateData) = 0
               then (\<lparr>status = 400,
                      body = JObj [(''success'', JBool False),
                                   (''error'', JStr ''No valid fields to update provided'')]\<rparr>,
                     sent)
               else
                 let (r, sent') = updateContact baseUrl R contactId (JObj updateData) sent
                 in case r of
                      Inl e \<Rightarrow> (contactsError e, sent')
                    | Inr result \<Rightarrow>
                        (\<lparr>status = 200,
                          body = JObj [(''success'', JBool True),
                                       (''message'', JStr ''Contact updated successfully''),
                                       (''data'', JObj
                                          [(''contactId'', field result ''contactId''),
                                           (''updatedProperties'', JArr (map (JStr \<circ> fst) updateData)),
                                           (''properties'',
                                            field (field result ''contact'') ''properties'')])]\<rparr>,
                         sent'))"

subsection \<open>GET /api/contacts\<close>

text \<open>One line of the filter mapping: \<open>if (req.query.src) filters.dst = req.query.src;\<close>\<close>

definition copyTruthy :: "props \<Rightarrow> string \<Rightarrow> string \<Rightarrow> props \<Rightarrow> props" where
  "copyTruthy query src dst target =
     (if truthy (getOwn query src) then AList.update dst (getOwn query src) target
      else target)"

definition search_filters :: "props \<Rightarrow> props" where
  "search_filters query =
     (copyTruthy query ''candidatePastCompany'' ''candidate_past_company''
      \<circ> copyTruthy query ''candidateExperience'' ''candidate_experience''
      \<circ> copyTruthy query ''ownerId'' ''hubspot_owner_id''
      \<circ> copyTruthy query ''email'' ''email''
      \<circ> copyTruthy query ''lastName'' ''lastname''
      \<circ> copyTruthy query ''firstName'' ''firstname'') []"

text \<open>
  \<open>parseInt(req.query.limit) || 10\<close>: NaN and 0 are falsy. \<open>None\<close> is the TypeError of
  the string conversion.
\<close>

definition search_limit :: "props \<Rightarrow> jsval option" where
  "search_limit query =
     map_option (\<lambda>n. js_or n (JNum 10)) (parseInt (getOwn query ''limit''))"

text \<open>
  The response maps over \<open>result.contacts\<close>, which must be an array without \<open>null\<close>
  elements; otherwise the TypeError lands in the \<open>catch\<close> block.
\<close>

definition search_contacts :: "string \<Rightarrow> remote \<Rightarrow> props \<Rightarrow> response io" where
  "search_contacts baseUrl R query sent =
     (case search_limit query of
        None \<Rightarrow> (contactsError convertError, sent)
      | Some limit \<Rightarrow>
          let filters = search_filters query;
              (r, sent') = searchContacts baseUrl R (JObj filters) limit sent
          in case r of
               Inl e \<Rightarrow> (contactsError e, sent')
             | Inr result \<Rightarrow>
                 (case field result ''contacts'' of
                    JArr cs \<Rightarrow>
                      (case find nullish cs of
                         Some c \<Rightarrow> (contactsError (readError c ''id''), sent')
                       | None \<Rightarrow>
                           (\<lparr>status = 200,
                             body = JObj
                               [(''success'', JBool True),
                                (''data'', JObj
                                   [(''contacts'', JArr (map (\<lambda>contact. JObj
                                        [(''contactId'', field contact ''id''),
                                         (''properties'', field contact ''properties''),
                                         (''createdAt'', field contact ''createdAt''),
                                         (''updatedAt'', field contact ''updatedAt'')]) cs)),
                                    (''total'', field result ''total''),
                                    (''limit'', limit),
                                    (''filters'', JObj filters)])]\<rparr>, sent'))
                  | _ \<Rightarrow>
                      (contactsError (TypeError ''result.contacts.map is not a function''),
                       sent')))"

subsection \<open>POST /api/contacts/batch\<close>

text \<open>
  The validation loop over \<open>req.body.contacts\<close>, from index \<open>i\<close>: the response that ends
  the request at the first element that fails, if any. Reading a field of a \<open>null\<close> element
  is a TypeError and lands in the \<open>catch\<close> block.
\<close>

fun batch_validate :: "nat \<Rightarrow> jsval list \<Rightarrow> response option" where
  "batch_validate i [] = None"
| "batch_validate i (contact # rest) =
     (if nullish contact then Some (contactsError (readError contact ''firstName''))
      else if \<not> truthy (field contact ''firstName'') \<or> \<not> truthy (field contact ''lastName'')
              \<or> \<not> truthy (field contact ''email'')
      then Some \<lparr>status = 400,
                 body = JObj [(''success'', JBool False),
                              (''error'', JStr (''Contact at index '' @ digits i
                                 @ '' is missing required fields (firstName, lastName, email)''))]\<rparr>
      else batch_validate (Suc i) rest)"

definition post_batch :: "string \<Rightarrow> remote \<Rightarrow> jsval \<Rightarrow> response io" where
  "post_batch baseUrl R reqBody sent =
     (if nullish reqBody then (contactsError (readError reqBody ''contacts''), sent)
      else
        let contacts = field reqBody ''contacts''
        in if \<not> truthy contacts \<or> \<not> isArray contacts
           then (\<lparr>status = 400,
                  body = JObj [(''success'', JBool False),
                               (''error'', JStr (''Request body must contain a '' @ [CHR 0x22]
                                  @ ''contacts'' @ [CHR 0x22] @ '' array''))]\<rparr>, sent)
           else case batch_validate 0 (arrayElements contacts) of
                  Some res \<Rightarrow> (res, sent)
                | None \<Rightarrow>
                    let (r, sent') = batchCreateContacts baseUrl R contacts sent
                    in case r of
                         Inl e \<Rightarrow> (contactsError e, sent')
                       | Inr result \<Rightarrow>
                           (case field result ''contacts'' of
                              JArr cs \<Rightarrow>
                                (case find nullish cs of
                                   Some c \<Rightarrow> (contactsError (readError c ''id''), sent')
                                 | None \<Rightarrow>
                                     (\<lparr>status = 201,
                                       body = JObj
                                         [(''success'', JBool True),
                                          (''message'', JStr ''Contacts created successfully''),
                                          (''data'', JObj
                                             [(''created'', JNum (int (length cs))),
                                              (''contacts'', JArr (map (\<lambda>contact. JObj
                                                  [(''contactId'', field contact ''id''),
                                                   (''properties'', field contact ''properties'')])
                                                cs))])]\<rparr>, sent'))
                            | _ \<Rightarrow>
                                (contactsError
                                   (TypeError ''result.contacts.map is not a function''), sent')))"

subsection \<open>POST /api/properties/setup\<close>

text \<open>
  \<open>createAllCustomProperties\<close> catches every error of its loop, so nothing inside the
  handler's \<open>try\<close> throws and its \<open>catch\<close> block has no case here.
\<close>

definition post_setup :: "string \<Rightarrow> remote \<Rightarrow> response io" where
  "post_setup baseUrl R sent =
     (let (results, sent') = createAllCustomProperties baseUrl R sent;
          total = length results;
          successful = length (filter (\<lambda>r. truthy (field r ''success'')) results);
          failed = length (filter (\<lambda>r. \<not> truthy (field r ''success'')) results);
          summary = JObj [(''total'', JNum (int total)),
                          (''successful'', JNum (int successful)),
                          (''failed'', JNum (int failed))]
      in (\<lparr>status = (if failed > 0 then 207 else 201),
           body = JObj [(''success'', JBool (failed = 0)),
                        (''message'', JStr (if failed = 0 then ''All properties created successfully''
                                            else ''Some properties failed to create'')),
                        (''data'', JObj [(''results'', JArr results), (''summary'', summary)])]\<rparr>,
          sent'))"

section \<open>Configuration\<close>

text \<open>
  \<open>process.env\<close> maps a name to a string or to nothing. Console output is the list of
  lines written, each tagged with its stream; the pictographs that start some of the
  program's lines are outside the character range of \<open>string\<close>: they and the blanks
  after them are left out of the literals.
\<close>

type_synonym env = "string \<Rightarrow> string option"

datatype console = Log string | Err string

definition startsWith :: "string \<Rightarrow> string \<Rightarrow> bool" where
  "startsWith s p = (take (length p) s = p)"

text \<open>The validators return the error message, or \<open>None\<close> for \<open>null\<close> (valid).\<close>

definition tokenValidator :: "string option \<Rightarrow> string option" where
  "tokenValidator v =
     (case v of
        None \<Rightarrow> Some ''Token is required''
      | Some s \<Rightarrow>
          if s = [] then Some ''Token is required''
          else if length s < 20
          then Some ''Token appears to be too short (minimum 20 characters)''
          else if \<not> startsWith s ''pat-''
          then Some (''Token should start with '' @ [CHR 0x22] @ ''pat-'' @ [CHR 0x22]
                     @ '' for Private App tokens'')
          else None)"

definition baseUrlValidator :: "string \<Rightarrow> string option" where
  "baseUrlValidator s =
     (if s \<noteq> [] \<and> \<not> startsWith s ''https://'' then Some ''Base URL must start with https://''
      else None)"

text \<open>A comparison with NaN is false, so an empty value would pass the range check.\<close>

definition portValidator :: "string \<Rightarrow> string option" where
  "portValidator s =
     (if s \<noteq> [] \<and> parseIntString s = JNaN then Some ''Port must be a valid number''
      else let port = parseIntString s
           in if belowInt port 1 \<or> aboveInt port 65535
              then Some ''Port must be between 1 and 65535''
              else None)"

record required_var =
  rv_name :: string
  rv_description :: string
  rv_validator :: "string option \<Rightarrow> string option"

record optional_var =
  ov_name :: string
  ov_default :: string
  ov_description :: string
  ov_validator :: "string \<Rightarrow> string option"

definition REQUIRED_ENV_VARS :: "required_var list" where
  "REQUIRED_ENV_VARS =
     [\<lparr>rv_name = ''HUBSPOT_ACCESS_TOKEN'',
       rv_description = ''HubSpot Private App access token'',
       rv_validator = tokenValidator\<rparr>]"

definition OPTIONAL_ENV_VARS :: "optional_var list" where
  "OPTIONAL_ENV_VARS =
     [\<lparr>ov_name = ''HUBSPOT_BASE_URL'', ov_default = ''https://api.hubapi.com'',
       ov_description = ''HubSpot API base URL'', ov_validator = baseUrlValidator\<rparr>,
      \<lparr>ov_name = ''PORT'', ov_default = ''3000'',
       ov_description = ''Server port number'', ov_validator = portValidator\<rparr>]"

text \<open>
  The state of \<open>validateEnvironment\<close>: the arrays \<open>errors\<close> (variable, error, description)
  and \<open>warnings\<close> (variable, error, description, default), the object \<open>config\<close>, and the
  console.
\<close>

record validation =
  v_errors :: "(string \<times> string \<times> string) list"
  v_warnings :: "(string \<times> string \<times> string \<times> string) list"
  v_config :: props
  v_out :: "console list"

text \<open>\<open>if (error)\<close> on a validator's result: \<open>null\<close> and the empty string are falsy.\<close>

definition isError :: "string option \<Rightarrow> bool" where
  "isError e = (case e of None \<Rightarrow> False | Some m \<Rightarrow> m \<noteq> [])"

definition envValue :: "string option \<Rightarrow> jsval" where
  "envValue v = (case v of None \<Rightarrow> JUndefined | Some s \<Rightarrow> JStr s)"

text \<open>One round of the loop over the required variables (each entry has a validator).\<close>

definition checkRequired :: "env \<Rightarrow> required_var \<Rightarrow> validation \<Rightarrow> validation" where
  "checkRequired env envVar st =
     (let v = env (rv_name envVar);
          error = rv_validator envVar v
      in if isError error
         then st\<lparr>v_errors := v_errors st @ [(rv_name envVar, the error, rv_description envVar)]\<rparr>
         else st\<lparr>v_out := v_out st @ [Log (rv_name envVar @ '': Valid'')],
                 v_config := AList.update (rv_name envVar) (envValue v) (v_config st)\<rparr>)"

text \<open>
  One round of the loop over the optional variables:
  \<open>value = process.env[name] || default\<close>; on a validator error only a warning is pushed,
  otherwise the line is logged and \<open>config[name] = value\<close> is assigned.
\<close>

definition checkOptional :: "env \<Rightarrow> optional_var \<Rightarrow> validation \<Rightarrow> validation" where
  "checkOptional env envVar st =
     (let isDefault = (case env (ov_name envVar) of None \<Rightarrow> True | Some s \<Rightarrow> s = []);
          v = (if isDefault then ov_default envVar else the (env (ov_name envVar)));
          error = ov_validator envVar v
      in if isError error
         then st\<lparr>v_warnings := v_warnings st
                    @ [(ov_name envVar, the error, ov_description envVar, ov_default envVar)]\<rparr>
         else st\<lparr>v_out := v_out st
                    @ [Log (ov_name envVar @ '': ''
                            @ (if isDefault then ''Using default ('' @ v @ '')'' else ''Valid''))],
                 v_config := AList.update (ov_name envVar) (JStr v) (v_config st)\<rparr>)"

definition showWarning :: "string \<times> string \<times> string \<times> string \<Rightarrow> console list" where
  "showWarning w =
     (case w of (variable, error, description, dflt) \<Rightarrow>
        [Log (''   '' @ variable @ '': '' @ error), Log (''   Description: '' @ description)]
        @ (if dflt \<noteq> [] then [Log (''   Using default: '' @ dflt)] else []))"

definition showError :: "string \<times> string \<times> string \<Rightarrow> console list" where
  "showError e =
     (case e of (variable, error, description) \<Rightarrow>
        [Err (''   '' @ variable @ '': '' @ error), Err (''   Description: '' @ description)])"

text \<open>
  \<open>validateEnvironment()\<close>: the console output, and either the message of the Error
  thrown or the \<open>config\<close> object returned.
\<close>

definition validateEnvironment :: "env \<Rightarrow> console list \<times> (string + props)" where
  "validateEnvironment env =
     (let st0 = \<lparr>v_errors = [], v_warnings = [], v_config = [],
                 v_out = [Log (''Validating environment configuration...'' @ [CHR 0x0A])]\<rparr>;
          st1 = fold (checkRequired env) REQUIRED_ENV_VARS st0;
          st2 = fold (checkOptional env) OPTIONAL_ENV_VARS st1;
          o1 = v_out st2 @ [Log []];
          o2 = (if length (v_warnings st2) > 0
                then o1 @ [Log ''Configuration Warnings:'']
                        @ concat (map showWarning (v_warnings st2)) @ [Log []]
                else o1)
      in if length (v_errors st2) > 0
         then (o2 @ [Err ''Configuration Errors:''] @ concat (map showError (v_errors st2))
                  @ [Err ([CHR 0x0A] @ ''Setup Instructions:''),
                     Err ''1. Copy .env.example to .env'',
                     Err ''2. Add your HubSpot Private App access token'',
                     Err ''3. Ensure the token has required scopes:'',
                     Err ''   - crm.objects.contacts.read'',
                     Err ''   - crm.objects.contacts.write'',
                     Err ''   - crm.schemas.contacts.read'',
                     Err ''   - crm.schemas.contacts.write''],
               Inl (''Environment validation failed: '' @ digits (length (v_errors st2))
                    @ '' error(s) found''))
         else (o2 @ [Log (''Environment validation passed!'' @ [CHR 0x0A])], Inr (v_config st2)))"

text \<open>
  The module's configuration object, built on load from what \<open>validateEnvironment\<close>
  returned; a thrown Error ends the load. \<open>port\<close> is \<open>parseInt(envConfig.PORT)\<close>; the
  value parsed is a string or \<open>undefined\<close>, whose conversion to a string cannot fail.
\<close>

record settings =
  cfg_accessToken :: jsval
  cfg_baseUrl :: jsval
  cfg_port :: jsval

definition loadConfig :: "env \<Rightarrow> console list \<times> (string + settings)" where
  "loadConfig env =
     (case validateEnvironment env of
        (printed, Inl message) \<Rightarrow> (printed, Inl message)
      | (printed, Inr envConfig) \<Rightarrow>
          (printed,
           Inr \<lparr>cfg_accessToken = getOwn envConfig ''HUBSPOT_ACCESS_TOKEN'',
                cfg_baseUrl = getOwn envConfig ''HUBSPOT_BASE_URL'',
                cfg_port = (case parseInt (getOwn envConfig ''PORT'') of
                          None \<Rightarrow> JNaN | Some p \<Rightarrow> p)\<rparr>))"

section \<open>Vocabulary of the properties\<close>

text \<open>The values that creation strips: \<open>undefined\<close>, \<open>null\<close> and the empty string.\<close>

definition emptyValue :: "jsval \<Rightarrow> bool" where
  "emptyValue v = (v = JUndefined \<or> v = JNull \<or> v = JStr [])"

text \<open>
  Two remote sides used as examples: one that accepts every request and answers with a
  record carrying an identifier and the properties it was sent, and one that answers
  every request with the given status.
\<close>

definition remoteAccepts :: remote where
  "remoteAccepts sent rq =
     Resolved (JObj [(''id'', JStr ''101''),
                     (''properties'', field (rq_data rq) ''properties''),
                     (''results'', JArr [])])"

definition remoteRejects :: "int \<Rightarrow> remote" where
  "remoteRejects st sent rq =
     Rejected ''Request failed'' (Some (st, JObj [(''status'', JStr ''error'')]))"

text \<open>
  The remote schema keeps property names unique: once a creation request for a name has
  been answered with a record or with a conflict, every later creation request for that
  name at the same address is answered with a conflict (status 409).
\<close>

definition isConflict :: "axios_outcome \<Rightarrow> bool" where
  "isConflict outcome =
     (case outcome of
        Resolved d \<Rightarrow> False
      | Rejected m r \<Rightarrow> (case r of None \<Rightarrow> False | Some (st, d) \<Rightarrow> st = 409))"

definition namesUnique :: "remote \<Rightarrow> bool" where
  "namesUnique R =
     (\<forall>sent1 sent2 rq rq'.
        rq_method rq = POST \<and> rq_method rq' = POST \<and> rq_url rq' = rq_url rq
        \<and> field (rq_data rq') ''name'' = field (rq_data rq) ''name''
        \<and> (isConflict (R sent1 rq) \<or> (\<exists>d. R sent1 rq = Resolved d))
        \<longrightarrow> isConflict (R (sent1 @ rq # sent2) rq'))"

text \<open>An example of such a remote side: it remembers the names it was sent.\<close>

definition remoteStore :: remote where
  "remoteStore sent rq =
     (if field (rq_data rq) ''name'' \<in> set (map (\<lambda>r. field (rq_data r) ''name'') sent)
      then Rejected ''Request failed with status code 409''
                    (Some (409, JObj [(''category'', JStr ''OBJECT_ALREADY_EXISTS'')]))
      else Resolved (rq_data rq))"

text \<open>A remote side that fails with status 500 for one property name and accepts the rest.\<close>

definition remoteFailsFor :: "string \<Rightarrow> remote" where
  "remoteFailsFor name sent rq =
     (if field (rq_data rq) ''name'' = JStr name
      then Rejected ''Request failed with status code 500'' (Some (500, JNull))
      else Resolved (rq_data rq))"

text \<open>
  What the query parser can put under a key of \<open>req.query\<close>: a string, an array or an
  object of such values.
\<close>

fun isQueryValue :: "jsval \<Rightarrow> bool" where
  "isQueryValue (JStr s) = True"
| "isQueryValue (JArr xs) = (\<forall>x \<in> set xs. isQueryValue x)"
| "isQueryValue (JObj ps) = (\<forall>p \<in> set ps. isQueryValue (snd p))"
| "isQueryValue _ = False"

text \<open>
  The search request as the specification words it: the recognised query parameters
  with the remote property each one filters on; one \<open>EQ\<close> predicate, with the value
  coerced to a string, for each recognised parameter that is present and not the empty
  string; at most one filter group, holding those predicates.
\<close>

definition recognizedParameters :: "(string \<times> string) list" where
  "recognizedParameters =
     [(''firstName'', ''firstname''), (''lastName'', ''lastname''), (''email'', ''email''),
      (''ownerId'', ''hubspot_owner_id''),
      (''candidateExperience'', ''candidate_experience''),
      (''candidatePastCompany'', ''candidate_past_company'')]"

definition expectedPredicates :: "props \<Rightarrow> jsval list option" where
  "expectedPredicates query =
     sequence
       (map (\<lambda>(src, dst).
               map_option (\<lambda>s. JObj [(''propertyName'', JStr dst), (''operator'', JStr ''EQ''),
                                      (''value'', JStr s)])
                          (toString (getOwn query src)))
            (filter (\<lambda>(src, dst). getOwn query src \<noteq> JUndefined \<and> getOwn query src \<noteq> JStr [])
                    recognizedParameters))"

definition expectedSearchRequest :: "string \<Rightarrow> jsval list \<Rightarrow> jsval \<Rightarrow> request" where
  "expectedSearchRequest baseUrl predicates limit =
     \<lparr>rq_method = POST, rq_url = baseUrl @ endpoint_contactsSearch,
      rq_data = JObj [(''filterGroups'',
                       JArr (if predicates = [] then []
                             else [JObj [(''filters'', JArr predicates)]])),
                      (''properties'',
                       JArr (map JStr [''firstname'', ''lastname'', ''email'', ''phone'',
                                       ''hubspot_owner_id'', ''candidate_experience'',
                                       ''candidate_date_of_joining'', ''candidate_name'',
                                       ''candidate_past_company''])),
                      (''limit'', limit)]\<rparr>"

text \<open>
  The provisioning run as the specification words it: the creation requests of the
  catalog, in catalog order; the outcome of the attempt for the item at a position, made
  after the requests of the items before it whatever their outcomes were; and the result
  recorded for an item: its name with the flag true and the data when the attempt
  returned, its name with the flag false and the error message when it threw.
\<close>

definition catalogRequests :: "string \<Rightarrow> request list" where
  "catalogRequests baseUrl =
     map (\<lambda>pd. \<lparr>rq_method = POST, rq_url = baseUrl @ endpoint_properties, rq_data = pd\<rparr>)
         getCustomPropertiesDefinitions"

definition attempt :: "string \<Rightarrow> remote \<Rightarrow> request list \<Rightarrow> nat \<Rightarrow> js_error + jsval" where
  "attempt baseUrl R sent i =
     fst (createProperty baseUrl R (getCustomPropertiesDefinitions ! i)
            (sent @ take i (catalogRequests baseUrl)))"

definition expectedResult :: "jsval \<Rightarrow> js_error + jsval \<Rightarrow> jsval" where
  "expectedResult pd outcome =
     (case outcome of
        Inr result \<Rightarrow> JObj [(''name'', field pd ''name''), (''success'', JBool True),
                             (''data'', result)]
      | Inl e \<Rightarrow> JObj [(''name'', field pd ''name''), (''success'', JBool False),
                        (''error'', errorMessage e)])"

text \<open>
  What the remote side must answer for an attempt to return: a record, or a conflict.
\<close>

definition remoteAllows :: "axios_outcome \<Rightarrow> bool" where
  "remoteAllows outcome =
     (case outcome of
        Resolved d \<Rightarrow> \<not> nullish d
      | Rejected m r \<Rightarrow> (case r of None \<Rightarrow> False | Some (st, d) \<Rightarrow> st = 409))"

section \<open>Field mapping on creation\<close>

lemma getOwn_distinct:
  "distinct (map fst ps) \<Longrightarrow> (k, v) \<in> set ps \<Longrightarrow> getOwn ps k = v"
  by (simp add: getOwn_def)

lemma strip_step:
  assumes "distinct (map fst ps)"
  shows "filter (\<lambda>p. fst p \<in> set ks \<longrightarrow> \<not> emptyValue (snd p))
           (if emptyValue (getOwn ps k) then AList.delete k ps else ps)
         = filter (\<lambda>p. fst p \<in> set (k # ks) \<longrightarrow> \<not> emptyValue (snd p)) ps"
proof -
  have key: "emptyValue (snd p) = emptyValue (getOwn ps k)" if "p \<in> set ps" "fst p = k" for p
    using that getOwn_distinct[OF assms, of "fst p" "snd p"] by (cases p) auto
  show ?thesis
  proof (cases "emptyValue (getOwn ps k)")
    case True
    then show ?thesis
      unfolding AList.delete_eq filter_filter
      by (auto intro!: filter_cong dest: key)
  next
    case False
    then show ?thesis
      by (auto intro!: filter_cong dest: key)
  qed
qed

lemma strip_fold:
  "distinct (map fst ps) \<Longrightarrow>
   fold (\<lambda>key ps.
           if getOwn ps key = JUndefined \<or> getOwn ps key = JNull \<or> getOwn ps key = JStr []
           then AList.delete key ps else ps) ks ps
   = filter (\<lambda>p. fst p \<in> set ks \<longrightarrow> \<not> emptyValue (snd p)) ps"
proof (induction ks arbitrary: ps)
  case Nil
  then show ?case by simp
next
  case (Cons k ks)
  let ?ps' = "if emptyValue (getOwn ps k) then AList.delete k ps else ps"
  have d: "distinct (map fst ?ps')"
    using Cons.prems by (simp add: AList.distinct_delete)
  have "fold (\<lambda>key ps.
           if getOwn ps key = JUndefined \<or> getOwn ps key = JNull \<or> getOwn ps key = JStr []
           then AList.delete key ps else ps) (k # ks) ps
      = fold (\<lambda>key ps.
           if getOwn ps key = JUndefined \<or> getOwn ps key = JNull \<or> getOwn ps key = JStr []
           then AList.delete key ps else ps) ks ?ps'"
    by (simp add: emptyValue_def)
  also have "\<dots> = filter (\<lambda>p. fst p \<in> set ks \<longrightarrow> \<not> emptyValue (snd p)) ?ps'"
    by (rule Cons.IH[OF d])
  also have "\<dots> = filter (\<lambda>p. fst p \<in> set (k # ks) \<longrightarrow> \<not> emptyValue (snd p)) ps"
    by (rule strip_step[OF Cons.prems])
  finally show ?case .
qed

lemma stripEmpty_filter:
  "distinct (map fst ps) \<Longrightarrow> stripEmpty ps = filter (\<lambda>p. \<not> emptyValue (snd p)) ps"
  unfolding stripEmpty_def by (simp add: strip_fold cong: filter_cong)

lemma map_of_filter_snd:
  "distinct (map fst ps) \<Longrightarrow>
   map_of (filter (\<lambda>p. Q (snd p)) ps) k =
     (case map_of ps k of None \<Rightarrow> None | Some v \<Rightarrow> if Q v then Some v else None)"
proof (induction ps)
  case Nil
  then show ?case by simp
next
  case (Cons p ps)
  then show ?case
    by (cases p) (auto simp: map_of_eq_None_iff image_iff split: option.splits)
qed

lemma createContact_literal_distinct: "distinct (map fst (createContact_literal d))"
  by (simp add: createContact_literal_def)

lemma createContact_properties_filter:
  "createContact_properties d = filter (\<lambda>p. \<not> emptyValue (snd p)) (createContact_literal d)"
  by (simp add: createContact_properties_def stripEmpty_filter createContact_literal_distinct)

lemma createContact_properties_lookup:
  "map_of (createContact_properties d) k =
     (case map_of (createContact_literal d) k of None \<Rightarrow> None
      | Some v \<Rightarrow> if \<not> emptyValue v then Some v else None)"
  unfolding createContact_properties_filter
  by (rule map_of_filter_snd[where Q="\<lambda>v. \<not> emptyValue v", OF createContact_literal_distinct])

lemma createContact_sent:
  "\<not> nullish d \<Longrightarrow>
   snd (createContact baseUrl R d sent) =
     sent @ [\<lparr>rq_method = POST, rq_url = baseUrl @ endpoint_contacts,
              rq_data = JObj [(''properties'', JObj (createContact_properties d))]\<rparr>]"
  by (simp add: createContact_def axios_def Let_def split: sum.splits)

text \<open>
  C2. For every create payload, the properties object that \<open>createContact\<close> sends has a
  key exactly for the input fields whose value is not \<open>undefined\<close>, not \<open>null\<close> and not the
  empty string; a retained key carries the input value unchanged under the fixed renaming
  (firstName to firstname, lastName to lastname, email to email, phone to phone, ownerId
  to hubspot_owner_id, candidateExperience to candidate_experience,
  candidateDateOfJoining to candidate_date_of_joining, candidateName to candidate_name,
  candidatePastCompany to candidate_past_company), and no other key is sent.
\<close>

theorem createContact_strips_empty:
  assumes "\<not> nullish contactData"
  shows "snd (createContact baseUrl R contactData sent) =
           sent @ [\<lparr>rq_method = POST, rq_url = baseUrl @ endpoint_contacts,
              rq_data = JObj [(''properties'', JObj (createContact_properties contactData))]\<rparr>]
   \<and> (\<forall>(f, k) \<in> set [(''firstName'', ''firstname''), (''lastName'', ''lastname''),
         (''email'', ''email''), (''phone'', ''phone''), (''ownerId'', ''hubspot_owner_id''),
         (''candidateExperience'', ''candidate_experience''),
         (''candidateDateOfJoining'', ''candidate_date_of_joining''),
         (''candidateName'', ''candidate_name''),
         (''candidatePastCompany'', ''candidate_past_company'')].
        map_of (createContact_properties contactData) k =
          (if field contactData f = JUndefined \<or> field contactData f = JNull
              \<or> field contactData f = JStr [] then None
           else Some (field contactData f)))
   \<and> fst ` set (createContact_properties contactData) \<subseteq>
        {''firstname'', ''lastname'', ''email'', ''phone'', ''hubspot_owner_id'',
         ''candidate_experience'', ''candidate_date_of_joining'', ''candidate_name'',
         ''candidate_past_company''}"
proof -
  have sent: "snd (createContact baseUrl R contactData sent) =
           sent @ [\<lparr>rq_method = POST, rq_url = baseUrl @ endpoint_contacts,
              rq_data = JObj [(''properties'', JObj (createContact_properties contactData))]\<rparr>]"
    using assms by (rule createContact_sent)
  have look: "map_of (createContact_properties contactData) k =
      (case map_of (createContact_literal contactData) k of None \<Rightarrow> None
       | Some v \<Rightarrow> if v = JUndefined \<or> v = JNull \<or> v = JStr [] then None else Some v)" for k
    by (simp add: createContact_properties_lookup emptyValue_def split: option.splits)
  have vals: "\<forall>(f, k) \<in> set [(''firstName'', ''firstname''), (''lastName'', ''lastname''),
         (''email'', ''email''), (''phone'', ''phone''), (''ownerId'', ''hubspot_owner_id''),
         (''candidateExperience'', ''candidate_experience''),
         (''candidateDateOfJoining'', ''candidate_date_of_joining''),
         (''candidateName'', ''candidate_name''),
         (''candidatePastCompany'', ''candidate_past_company'')].
        map_of (createContact_properties contactData) k =
          (if field contactData f = JUndefined \<or> field contactData f = JNull
              \<or> field contactData f = JStr [] then None
           else Some (field contactData f))"
    unfolding look by (simp add: createContact_literal_def)
  have "fst ` set (createContact_properties contactData) \<subseteq> fst ` set (createContact_literal contactData)"
    by (auto simp: createContact_properties_filter)
  also have "\<dots> = {''firstname'', ''lastname'', ''email'', ''phone'', ''hubspot_owner_id'',
         ''candidate_experience'', ''candidate_date_of_joining'', ''candidate_name'',
         ''candidate_past_company''}"
    by (simp add: createContact_literal_def)
  finally have keys: "fst ` set (createContact_properties contactData) \<subseteq>
        {''firstname'', ''lastname'', ''email'', ''phone'', ''hubspot_owner_id'',
         ''candidate_experience'', ''candidate_date_of_joining'', ''candidate_name'',
         ''candidate_past_company''}" .
  from sent vals keys show ?thesis by (intro conjI)
qed

theorem createContact_strips_empty_witness:
  "\<not> nullish (JObj [(''firstName'', JStr ''A''), (''lastName'', JStr ''B''),
                    (''email'', JStr ''a@b.com''), (''phone'', JStr []),
                    (''ownerId'', JNull), (''candidateExperience'', JNum 5)])
   \<and> map_of (createContact_properties
         (JObj [(''firstName'', JStr ''A''), (''lastName'', JStr ''B''),
                (''email'', JStr ''a@b.com''), (''phone'', JStr []),
                (''ownerId'', JNull), (''candidateExperience'', JNum 5)])) ''firstname''
       = Some (JStr ''A'')
   \<and> map_of (createContact_properties
         (JObj [(''firstName'', JStr ''A''), (''lastName'', JStr ''B''),
                (''email'', JStr ''a@b.com''), (''phone'', JStr []),
                (''ownerId'', JNull), (''candidateExperience'', JNum 5)])) ''phone'' = None
   \<and> map_of (createContact_properties
         (JObj [(''firstName'', JStr ''A''), (''lastName'', JStr ''B''),
                (''email'', JStr ''a@b.com''), (''phone'', JStr []),
                (''ownerId'', JNull), (''candidateExperience'', JNum 5)])) ''hubspot_owner_id''
       = None
   \<and> map_of (createContact_properties
         (JObj [(''firstName'', JStr ''A''), (''lastName'', JStr ''B''),
                (''email'', JStr ''a@b.com''), (''phone'', JStr []),
                (''ownerId'', JNull), (''candidateExperience'', JNum 5)])) ''candidate_experience''
       = Some (JNum 5)
   \<and> map_of (createContact_properties
         (JObj [(''firstName'', JStr ''A''), (''lastName'', JStr ''B''),
                (''email'', JStr ''a@b.com''), (''phone'', JStr []),
                (''ownerId'', JNull), (''candidateExperience'', JNum 5)])) ''candidate_name''
       = None"
  using createContact_strips_empty
          [of "JObj [(''firstName'', JStr ''A''), (''lastName'', JStr ''B''),
                     (''email'', JStr ''a@b.com''), (''phone'', JStr []),
                     (''ownerId'', JNull), (''candidateExperience'', JNum 5)]"
              "''https://api.hubapi.com''" remoteAccepts "[]"]
  by (simp add: getOwn_def)

section \<open>Field mapping on update\<close>

lemma map_of_copyDefined:
  "map_of (copyDefined d src dst t) k =
     (if k = dst \<and> field d src \<noteq> JUndefined then Some (field d src) else map_of t k)"
  by (simp add: copyDefined_def AList.update_conv')

lemma updateContact_properties_keys:
  "fst ` set (updateContact_properties d) \<subseteq>
     {''firstname'', ''lastname'', ''email'', ''phone'', ''hubspot_owner_id'',
      ''candidate_experience'', ''candidate_date_of_joining'', ''candidate_name'',
      ''candidate_past_company''}"
proof
  fix k
  assume "k \<in> fst ` set (updateContact_properties d)"
  then have "map_of (updateContact_properties d) k \<noteq> None"
    by (simp add: map_of_eq_None_iff)
  then show "k \<in> {''firstname'', ''lastname'', ''email'', ''phone'', ''hubspot_owner_id'',
      ''candidate_experience'', ''candidate_date_of_joining'', ''candidate_name'',
      ''candidate_past_company''}"
    by (simp add: updateContact_properties_def map_of_copyDefined split: if_splits)
qed

lemma updateContact_sent:
  "\<not> nullish d \<Longrightarrow>
   snd (updateContact baseUrl R contactId d sent) =
     sent @ [\<lparr>rq_method = PATCH, rq_url = baseUrl @ endpoint_contacts @ ''/'' @ contactId,
              rq_data = JObj [(''properties'', JObj (updateContact_properties d))]\<rparr>]"
  by (simp add: updateContact_def axios_def Let_def split: sum.splits axios_outcome.splits)

text \<open>
  C3. For every update payload, the properties object that \<open>updateContact\<close> sends mentions
  exactly those of the nine recognised fields that are present (not \<open>undefined\<close>) in the
  update data, each with its value unchanged: an absent field never appears, and a field
  present with the empty string is sent with that empty value.
\<close>

theorem updateContact_sends_present_fields:
  assumes "\<not> nullish updateData"
  shows "snd (updateContact baseUrl R contactId updateData sent) =
           sent @ [\<lparr>rq_method = PATCH,
                    rq_url = baseUrl @ endpoint_contacts @ ''/'' @ contactId,
                    rq_data = JObj [(''properties'',
                                     JObj (updateContact_properties updateData))]\<rparr>]
   \<and> (\<forall>(f, k) \<in> set [(''firstName'', ''firstname''), (''lastName'', ''lastname''),
         (''email'', ''email''), (''phone'', ''phone''), (''ownerId'', ''hubspot_owner_id''),
         (''candidateExperience'', ''candidate_experience''),
         (''candidateDateOfJoining'', ''candidate_date_of_joining''),
         (''candidateName'', ''candidate_name''),
         (''candidatePastCompany'', ''candidate_past_company'')].
        map_of (updateContact_properties updateData) k =
          (if field updateData f = JUndefined then None else Some (field updateData f))
        \<and> (field updateData f = JStr [] \<longrightarrow>
             map_of (updateContact_properties updateData) k = Some (JStr [])))
   \<and> fst ` set (updateContact_properties updateData) \<subseteq>
        {''firstname'', ''lastname'', ''email'', ''phone'', ''hubspot_owner_id'',
         ''candidate_experience'', ''candidate_date_of_joining'', ''candidate_name'',
         ''candidate_past_company''}"
proof -
  have sent: "snd (updateContact baseUrl R contactId updateData sent) =
           sent @ [\<lparr>rq_method = PATCH,
                    rq_url = baseUrl @ endpoint_contacts @ ''/'' @ contactId,
                    rq_data = JObj [(''properties'',
                                     JObj (updateContact_properties updateData))]\<rparr>]"
    using assms by (rule updateContact_sent)
  have vals: "\<forall>(f, k) \<in> set [(''firstName'', ''firstname''), (''lastName'', ''lastname''),
         (''email'', ''email''), (''phone'', ''phone''), (''ownerId'', ''hubspot_owner_id''),
         (''candidateExperience'', ''candidate_experience''),
         (''candidateDateOfJoining'', ''candidate_date_of_joining''),
         (''candidateName'', ''candidate_name''),
         (''candidatePastCompany'', ''candidate_past_company'')].
        map_of (updateContact_properties updateData) k =
          (if field updateData f = JUndefined then None else Some (field updateData f))
        \<and> (field updateData f = JStr [] \<longrightarrow>
             map_of (updateContact_properties updateData) k = Some (JStr []))"
    by (simp add: updateContact_properties_def map_of_copyDefined)
  have keys: "fst ` set (updateContact_properties updateData) \<subseteq>
        {''firstname'', ''lastname'', ''email'', ''phone'', ''hubspot_owner_id'',
         ''candidate_experience'', ''candidate_date_of_joining'', ''candidate_name'',
         ''candidate_past_company''}"
    by (rule updateContact_properties_keys)
  from sent vals keys show ?thesis by (intro conjI)
qed

theorem updateContact_sends_present_fields_witness:
  "\<not> nullish (JObj [(''email'', JStr []), (''candidateExperience'', JNum 6)])
   \<and> snd (updateContact ''https://api.hubapi.com'' remoteAccepts ''101''
             (JObj [(''email'', JStr []), (''candidateExperience'', JNum 6)]) [])
       = [\<lparr>rq_method = PATCH,
           rq_url = ''https://api.hubapi.com'' @ endpoint_contacts @ ''/'' @ ''101'',
           rq_data = JObj [(''properties'', JObj (updateContact_properties
              (JObj [(''email'', JStr []), (''candidateExperience'', JNum 6)])))]\<rparr>]
   \<and> map_of (updateContact_properties
         (JObj [(''email'', JStr []), (''candidateExperience'', JNum 6)])) ''email''
       = Some (JStr [])
   \<and> map_of (updateContact_properties
         (JObj [(''email'', JStr []), (''candidateExperience'', JNum 6)])) ''phone'' = None
   \<and> map_of (updateContact_properties
         (JObj [(''email'', JStr []), (''candidateExperience'', JNum 6)])) ''candidate_experience''
       = Some (JNum 6)"
  using updateContact_sends_present_fields
          [of "JObj [(''email'', JStr []), (''candidateExperience'', JNum 6)]"
              "''https://api.hubapi.com''" remoteAccepts "''101''" "[]"]
  by (simp add: getOwn_def)

section \<open>Retrieving a contact\<close>

lemma getContact_rejected:
  assumes q: "(if truthy p \<and> p \<noteq> JUndefined then toString p
               else Some (join '','' getContact_defaultProps)) = Some q"
    and rq: "rq = \<lparr>rq_method = GET,
                rq_url = baseUrl @ endpoint_contacts @ ''/'' @ contactId @ ''?properties='' @ q,
                rq_data = JUndefined\<rparr>"
    and rej: "R sent rq = Rejected m r"
  shows "getContact baseUrl R contactId p sent =
           (if responseStatus (AxiosError m r) = JNum 404
            then Inr (JObj [(''success'', JBool False), (''error'', JStr ''Contact not found''),
                            (''contactId'', JStr contactId)])
            else Inl (serviceFailure (AxiosError m r)), sent @ [rq])"
proof -
  have pp: "(if truthy (if p = JUndefined then JNull else p)
             then toString (if p = JUndefined then JNull else p)
             else Some (join '','' getContact_defaultProps)) = Some q"
    using q by (cases "p = JUndefined") auto
  show ?thesis
    unfolding getContact_def Let_def pp
    using rej by (simp add: axios_def rq)
qed

lemma responseStatus_404:
  "responseStatus (AxiosError m r) = JNum 404 \<longleftrightarrow> (\<exists>d. r = Some (404, d))"
  by (cases r) auto

text \<open>
  C8. For every contact identifier, when the remote side answers the request of
  \<open>getContact\<close> with status 404, the operation returns the not-found result
  \<open>{success: false, error: 'Contact not found', contactId}\<close> instead of throwing, and the GET
  handler answers 404 with that error and the identifier; every other rejection of the
  request is thrown as a service failure, and the handler answers 500.
\<close>

theorem getContact_not_found:
  "(R sent \<lparr>rq_method = GET,
            rq_url = baseUrl @ endpoint_contacts @ ''/'' @ contactId @ ''?properties=''
                     @ join '','' getContact_defaultProps,
            rq_data = JUndefined\<rparr> = Rejected m (Some (404, d))
    \<longrightarrow> getContact baseUrl R contactId JUndefined sent =
          (Inr (JObj [(''success'', JBool False), (''error'', JStr ''Contact not found''),
                      (''contactId'', JStr contactId)]),
           sent @ [\<lparr>rq_method = GET,
                    rq_url = baseUrl @ endpoint_contacts @ ''/'' @ contactId @ ''?properties=''
                             @ join '','' getContact_defaultProps,
                    rq_data = JUndefined\<rparr>])
      \<and> fst (get_contact baseUrl R contactId sent) =
          \<lparr>status = 404,
           body = JObj [(''success'', JBool False), (''error'', JStr ''Contact not found''),
                        (''contactId'', JStr contactId)]\<rparr>)
   \<and> (R sent \<lparr>rq_method = GET,
            rq_url = baseUrl @ endpoint_contacts @ ''/'' @ contactId @ ''?properties=''
                     @ join '','' getContact_defaultProps,
            rq_data = JUndefined\<rparr> = Rejected m r \<and> (\<forall>d'. r \<noteq> Some (404, d'))
    \<longrightarrow> fst (getContact baseUrl R contactId JUndefined sent) =
          Inl (serviceFailure (AxiosError m r))
      \<and> fst (get_contact baseUrl R contactId sent) = contactsError (serviceFailure (AxiosError m r))
      \<and> status (fst (get_contact baseUrl R contactId sent)) = 500)"
proof (intro conjI impI)
  assume a: "R sent \<lparr>rq_method = GET,
            rq_url = baseUrl @ endpoint_contacts @ ''/'' @ contactId @ ''?properties=''
                     @ join '','' getContact_defaultProps,
            rq_data = JUndefined\<rparr> = Rejected m (Some (404, d))"
  have g: "getContact baseUrl R contactId JUndefined sent =
          (Inr (JObj [(''success'', JBool False), (''error'', JStr ''Contact not found''),
                      (''contactId'', JStr contactId)]),
           sent @ [\<lparr>rq_method = GET,
                    rq_url = baseUrl @ endpoint_contacts @ ''/'' @ contactId @ ''?properties=''
                             @ join '','' getContact_defaultProps,
                    rq_data = JUndefined\<rparr>])"
    using getContact_rejected[where p=JUndefined and q="join '','' getContact_defaultProps"
            and R=R and sent=sent and m=m and r="Some (404, d)" and baseUrl=baseUrl
            and contactId=contactId, OF _ refl] a
    by simp
  show "getContact baseUrl R contactId JUndefined sent =
          (Inr (JObj [(''success'', JBool False), (''error'', JStr ''Contact not found''),
                      (''contactId'', JStr contactId)]),
           sent @ [\<lparr>rq_method = GET,
                    rq_url = baseUrl @ endpoint_contacts @ ''/'' @ contactId @ ''?properties=''
                             @ join '','' getContact_defaultProps,
                    rq_data = JUndefined\<rparr>])"
    by (rule g)
  show "fst (get_contact baseUrl R contactId sent) =
          \<lparr>status = 404,
           body = JObj [(''success'', JBool False), (''error'', JStr ''Contact not found''),
                        (''contactId'', JStr contactId)]\<rparr>"
    by (simp add: get_contact_def g getOwn_def)
next
  assume a: "R sent \<lparr>rq_method = GET,
            rq_url = baseUrl @ endpoint_contacts @ ''/'' @ contactId @ ''?properties=''
                     @ join '','' getContact_defaultProps,
            rq_data = JUndefined\<rparr> = Rejected m r \<and> (\<forall>d'. r \<noteq> Some (404, d'))"
  then have n: "responseStatus (AxiosError m r) \<noteq> JNum 404"
    by (simp add: responseStatus_404)
  have g: "getContact baseUrl R contactId JUndefined sent =
          (Inl (serviceFailure (AxiosError m r)),
           sent @ [\<lparr>rq_method = GET,
                    rq_url = baseUrl @ endpoint_contacts @ ''/'' @ contactId @ ''?properties=''
                             @ join '','' getContact_defaultProps,
                    rq_data = JUndefined\<rparr>])"
    using getContact_rejected[where p=JUndefined and q="join '','' getContact_defaultProps"
            and R=R and sent=sent and m=m and r=r and baseUrl=baseUrl
            and contactId=contactId, OF _ refl] a n
    by simp
  show "fst (getContact baseUrl R contactId JUndefined sent) =
          Inl (serviceFailure (AxiosError m r))"
    by (simp add: g)
  show "fst (get_contact baseUrl R contactId sent) = contactsError (serviceFailure (AxiosError m r))"
    by (simp add: get_contact_def g)
  then show "status (fst (get_contact baseUrl R contactId sent)) = 500"
    by (simp add: contactsError_def)
qed

theorem getContact_not_found_witness:
  "remoteRejects 404 [] \<lparr>rq_method = GET,
            rq_url = ''https://api.hubapi.com'' @ endpoint_contacts @ ''/'' @ ''999''
                     @ ''?properties='' @ join '','' getContact_defaultProps,
            rq_data = JUndefined\<rparr>
     = Rejected ''Request failed'' (Some (404, JObj [(''status'', JStr ''error'')]))
   \<and> fst (get_contact ''https://api.hubapi.com'' (remoteRejects 404) ''999'' []) =
          \<lparr>status = 404,
           body = JObj [(''success'', JBool False), (''error'', JStr ''Contact not found''),
                        (''contactId'', JStr ''999'')]\<rparr>
   \<and> remoteRejects 503 [] \<lparr>rq_method = GET,
            rq_url = ''https://api.hubapi.com'' @ endpoint_contacts @ ''/'' @ ''999''
                     @ ''?properties='' @ join '','' getContact_defaultProps,
            rq_data = JUndefined\<rparr>
     = Rejected ''Request failed'' (Some (503, JObj [(''status'', JStr ''error'')]))
   \<and> status (fst (get_contact ''https://api.hubapi.com'' (remoteRejects 503) ''999'' [])) = 500"
  using getContact_not_found
          [of "remoteRejects 404" "[]" "''https://api.hubapi.com''" "''999''"
              "''Request failed''" "JObj [(''status'', JStr ''error'')]"
              "Some (404, JObj [(''status'', JStr ''error'')])"]
        getContact_not_found
          [of "remoteRejects 503" "[]" "''https://api.hubapi.com''" "''999''"
              "''Request failed''" "JObj [(''status'', JStr ''error'')]"
              "Some (503, JObj [(''status'', JStr ''error'')])"]
  by (simp add: remoteRejects_def contactsError_def)

section \<open>Provisioning properties\<close>

lemma responseStatus_409:
  "responseStatus (AxiosError m r) = JNum 409 \<longleftrightarrow> (\<exists>d. r = Some (409, d))"
  by (cases r) auto

lemma isConflict_iff:
  "isConflict outcome \<longleftrightarrow> (\<exists>m d. outcome = Rejected m (Some (409, d)))"
  by (auto simp: isConflict_def split: axios_outcome.splits option.splits)

lemma createProperty_rejected:
  assumes "\<not> nullish pd" and "toString (field pd ''name'') \<noteq> None"
    and "R sent \<lparr>rq_method = POST, rq_url = baseUrl @ endpoint_properties, rq_data = pd\<rparr>
           = Rejected m r"
  shows "createProperty baseUrl R pd sent =
           (if responseStatus (AxiosError m r) = JNum 409
            then Inr (JObj [(''name'', field pd ''name''), (''status'', JStr ''already_exists'')])
            else Inl (AxiosError m r),
            sent @ [\<lparr>rq_method = POST, rq_url = baseUrl @ endpoint_properties, rq_data = pd\<rparr>])"
  using assms by (simp add: createProperty_def axios_def)

lemma createProperty_resolved:
  assumes "\<not> nullish pd" and "toString (field pd ''name'') \<noteq> None"
    and "R sent \<lparr>rq_method = POST, rq_url = baseUrl @ endpoint_properties, rq_data = pd\<rparr>
           = Resolved d"
  shows "createProperty baseUrl R pd sent =
           (if nullish d then Inl (readError d ''name'') else Inr d,
            sent @ [\<lparr>rq_method = POST, rq_url = baseUrl @ endpoint_properties, rq_data = pd\<rparr>])"
  using assms by (simp add: createProperty_def axios_def)

lemma createProperty_sent:
  assumes "\<not> nullish pd" and "toString (field pd ''name'') \<noteq> None"
  shows "snd (createProperty baseUrl R pd sent) =
           sent @ [\<lparr>rq_method = POST, rq_url = baseUrl @ endpoint_properties, rq_data = pd\<rparr>]"
  using assms
  by (simp add: createProperty_def axios_def Let_def split: axios_outcome.splits)

lemma createProperty_returned:
  assumes "\<not> nullish pd" and "toString (field pd ''name'') \<noteq> None"
    and "fst (createProperty baseUrl R pd sent) = Inr x"
  shows "isConflict (R sent \<lparr>rq_method = POST, rq_url = baseUrl @ endpoint_properties, rq_data = pd\<rparr>)
         \<or> (\<exists>d. R sent \<lparr>rq_method = POST, rq_url = baseUrl @ endpoint_properties, rq_data = pd\<rparr>
                   = Resolved d)"
proof (cases "R sent \<lparr>rq_method = POST, rq_url = baseUrl @ endpoint_properties, rq_data = pd\<rparr>")
  case (Resolved d)
  then show ?thesis by simp
next
  case (Rejected m r)
  from createProperty_rejected[where baseUrl=baseUrl and R=R and sent=sent, OF assms(1,2) Rejected] assms(3)
  have "responseStatus (AxiosError m r) = JNum 409"
    by (auto split: if_splits)
  then show ?thesis using Rejected by (auto simp: responseStatus_409 isConflict_iff)
qed

text \<open>
  C6. For every property definition (an object whose name has a string form), a
  rejection of the creation request with status 409 makes \<open>createProperty\<close> return
  \<open>{name, status: 'already_exists'}\<close> for that name instead of throwing, and any other
  rejection is thrown again as it is. Hence, against a remote side that keeps names unique,
  a second creation for the same name after one that returned yields \<open>already_exists\<close>.
\<close>

theorem createProperty_conflict_is_success:
  assumes "\<not> nullish pd" and "toString (field pd ''name'') \<noteq> None"
  shows "(R sent \<lparr>rq_method = POST, rq_url = baseUrl @ endpoint_properties, rq_data = pd\<rparr>
            = Rejected m (Some (409, d))
          \<longrightarrow> createProperty baseUrl R pd sent =
                (Inr (JObj [(''name'', field pd ''name''), (''status'', JStr ''already_exists'')]),
                 sent @ [\<lparr>rq_method = POST, rq_url = baseUrl @ endpoint_properties,
                          rq_data = pd\<rparr>]))
       \<and> (R sent \<lparr>rq_method = POST, rq_url = baseUrl @ endpoint_properties, rq_data = pd\<rparr>
            = Rejected m r \<and> (\<forall>d'. r \<noteq> Some (409, d'))
          \<longrightarrow> createProperty baseUrl R pd sent =
                (Inl (AxiosError m r),
                 sent @ [\<lparr>rq_method = POST, rq_url = baseUrl @ endpoint_properties,
                          rq_data = pd\<rparr>]))
       \<and> (namesUnique R \<and> \<not> nullish pd' \<and> field pd' ''name'' = field pd ''name''
          \<and> fst (createProperty baseUrl R pd sent) = Inr x
          \<longrightarrow> fst (createProperty baseUrl R pd' (snd (createProperty baseUrl R pd sent))) =
                Inr (JObj [(''name'', field pd ''name''), (''status'', JStr ''already_exists'')]))"
proof (intro conjI impI)
  assume a: "R sent \<lparr>rq_method = POST, rq_url = baseUrl @ endpoint_properties, rq_data = pd\<rparr>
            = Rejected m (Some (409, d))"
  show "createProperty baseUrl R pd sent =
                (Inr (JObj [(''name'', field pd ''name''), (''status'', JStr ''already_exists'')]),
                 sent @ [\<lparr>rq_method = POST, rq_url = baseUrl @ endpoint_properties,
                          rq_data = pd\<rparr>])"
    using createProperty_rejected[where baseUrl=baseUrl and R=R and sent=sent, OF assms a] by simp
next
  assume a: "R sent \<lparr>rq_method = POST, rq_url = baseUrl @ endpoint_properties, rq_data = pd\<rparr>
            = Rejected m r \<and> (\<forall>d'. r \<noteq> Some (409, d'))"
  then have "responseStatus (AxiosError m r) \<noteq> JNum 409"
    by (simp add: responseStatus_409)
  then show "createProperty baseUrl R pd sent =
                (Inl (AxiosError m r),
                 sent @ [\<lparr>rq_method = POST, rq_url = baseUrl @ endpoint_properties,
                          rq_data = pd\<rparr>])"
    using createProperty_rejected[where baseUrl=baseUrl and R=R and sent=sent, OF assms conjunct1[OF a]] by simp
next
  let ?rq = "\<lparr>rq_method = POST, rq_url = baseUrl @ endpoint_properties, rq_data = pd\<rparr>"
  let ?rq' = "\<lparr>rq_method = POST, rq_url = baseUrl @ endpoint_properties, rq_data = pd'\<rparr>"
  assume a: "namesUnique R \<and> \<not> nullish pd' \<and> field pd' ''name'' = field pd ''name''
          \<and> fst (createProperty baseUrl R pd sent) = Inr x"
  then have u: "namesUnique R" and n': "\<not> nullish pd'"
    and same: "field pd' ''name'' = field pd ''name''"
    and first: "fst (createProperty baseUrl R pd sent) = Inr x"
    by simp_all
  have p': "toString (field pd' ''name'') \<noteq> None"
    using assms(2) same by simp
  have "isConflict (R sent ?rq) \<or> (\<exists>d. R sent ?rq = Resolved d)"
    by (rule createProperty_returned[OF assms first])
  with u same have "isConflict (R (sent @ ?rq # []) ?rq')"
    unfolding namesUnique_def by (metis request.select_convs(1,2,3))
  then obtain m' d' where rej: "R (sent @ [?rq]) ?rq' = Rejected m' (Some (409, d'))"
    by (auto simp: isConflict_iff)
  have "createProperty baseUrl R pd' (sent @ [?rq]) =
          (Inr (JObj [(''name'', field pd' ''name''), (''status'', JStr ''already_exists'')]),
           (sent @ [?rq]) @ [?rq'])"
    using createProperty_rejected[where baseUrl=baseUrl and R=R and sent="sent @ [?rq]", OF n' p' rej] by simp
  then show "fst (createProperty baseUrl R pd' (snd (createProperty baseUrl R pd sent))) =
                Inr (JObj [(''name'', field pd ''name''), (''status'', JStr ''already_exists'')])"
    by (simp add: createProperty_sent[OF assms] same)
qed

lemma namesUnique_remoteStore: "namesUnique remoteStore"
  unfolding namesUnique_def
  by (auto simp: remoteStore_def isConflict_def)


theorem createProperty_conflict_is_success_witness:
  "\<not> nullish (JObj [(''name'', JStr ''candidate_name''), (''label'', JStr ''Candidate Name''),
                    (''type'', JStr ''string'')])
   \<and> toString (field (JObj [(''name'', JStr ''candidate_name''),
                             (''label'', JStr ''Candidate Name''), (''type'', JStr ''string'')])
                 ''name'') \<noteq> None
   \<and> namesUnique remoteStore
   \<and> fst (createProperty ''https://api.hubapi.com'' remoteStore
             (JObj [(''name'', JStr ''candidate_name''), (''label'', JStr ''Candidate Name''),
                    (''type'', JStr ''string'')]) [])
       = Inr (JObj [(''name'', JStr ''candidate_name''), (''label'', JStr ''Candidate Name''),
                    (''type'', JStr ''string'')])
   \<and> fst (createProperty ''https://api.hubapi.com'' remoteStore
             (JObj [(''name'', JStr ''candidate_name''), (''label'', JStr ''Candidate Name''),
                    (''type'', JStr ''string'')])
             (snd (createProperty ''https://api.hubapi.com'' remoteStore
                (JObj [(''name'', JStr ''candidate_name''), (''label'', JStr ''Candidate Name''),
                       (''type'', JStr ''string'')]) [])))
       = Inr (JObj [(''name'', JStr ''candidate_name''), (''status'', JStr ''already_exists'')])
   \<and> fst (createProperty ''https://api.hubapi.com'' (remoteRejects 409)
             (JObj [(''name'', JStr ''candidate_name''), (''label'', JStr ''Candidate Name''),
                    (''type'', JStr ''string'')]) [])
       = Inr (JObj [(''name'', JStr ''candidate_name''), (''status'', JStr ''already_exists'')])
   \<and> fst (createProperty ''https://api.hubapi.com'' (remoteRejects 500)
             (JObj [(''name'', JStr ''candidate_name''), (''label'', JStr ''Candidate Name''),
                    (''type'', JStr ''string'')]) [])
       = Inl (AxiosError ''Request failed'' (Some (500, JObj [(''status'', JStr ''error'')])))"
proof -
  let ?pd = "JObj [(''name'', JStr ''candidate_name''), (''label'', JStr ''Candidate Name''),
                   (''type'', JStr ''string'')]"
  let ?b = "''https://api.hubapi.com''"
  have h1: "\<not> nullish ?pd" by simp
  have h2: "toString (field ?pd ''name'') \<noteq> None" by (simp add: getOwn_def)
  have first: "fst (createProperty ?b remoteStore ?pd []) = Inr ?pd"
    by (simp add: createProperty_def axios_def remoteStore_def getOwn_def)
  have twice: "fst (createProperty ?b remoteStore ?pd (snd (createProperty ?b remoteStore ?pd [])))
       = Inr (JObj [(''name'', JStr ''candidate_name''), (''status'', JStr ''already_exists'')])"
    using createProperty_conflict_is_success
            [OF h1 h2, where R=remoteStore and sent="[]" and baseUrl="?b" and pd'="?pd"
               and x="?pd" and m="[]" and d=JNull and r=None]
          namesUnique_remoteStore first
    by (simp add: getOwn_def)
  have conflict: "fst (createProperty ?b (remoteRejects 409) ?pd [])
       = Inr (JObj [(''name'', JStr ''candidate_name''), (''status'', JStr ''already_exists'')])"
    using createProperty_conflict_is_success
            [OF h1 h2, where R="remoteRejects 409" and sent="[]" and baseUrl="?b"
               and m="''Request failed''" and d="JObj [(''status'', JStr ''error'')]"
               and pd'="?pd" and x="?pd"
               and r="Some (409, JObj [(''status'', JStr ''error'')])"]
    by (simp add: remoteRejects_def getOwn_def)
  have other: "fst (createProperty ?b (remoteRejects 500) ?pd [])
       = Inl (AxiosError ''Request failed'' (Some (500, JObj [(''status'', JStr ''error'')])))"
    using createProperty_conflict_is_success
            [OF h1 h2, where R="remoteRejects 500" and sent="[]" and baseUrl="?b"
               and m="''Request failed''" and d="JObj [(''status'', JStr ''error'')]"
               and pd'="?pd" and x="?pd"
               and r="Some (500, JObj [(''status'', JStr ''error'')])"]
    by (simp add: remoteRejects_def)
  from h1 h2 namesUnique_remoteStore first twice conflict other show ?thesis
    by (intro conjI)
qed

section \<open>Provisioning the catalog\<close>

lemma catalog_wellformed:
  "\<forall>pd \<in> set getCustomPropertiesDefinitions. \<not> nullish pd \<and> toString (field pd ''name'') \<noteq> None"
  by (simp add: getCustomPropertiesDefinitions_def getOwn_def)

lemma catalog_names:
  "map (\<lambda>pd. field pd ''name'') getCustomPropertiesDefinitions =
     [JStr ''candidate_experience'', JStr ''candidate_date_of_joining'',
      JStr ''candidate_name'', JStr ''candidate_past_company'']"
  by (simp add: getCustomPropertiesDefinitions_def getOwn_def)

lemma catalog_length: "length getCustomPropertiesDefinitions = 4"
  by (simp add: getCustomPropertiesDefinitions_def)

lemma createAll_loop_exact:
  assumes "\<forall>pd \<in> set defs. \<not> nullish pd \<and> toString (field pd ''name'') \<noteq> None"
  shows "createAll_loop baseUrl R defs acc sent =
           (acc @ map (\<lambda>i. expectedResult (defs ! i)
                             (fst (createProperty baseUrl R (defs ! i)
                                     (sent @ map (\<lambda>pd. \<lparr>rq_method = POST,
                                                        rq_url = baseUrl @ endpoint_properties,
                                                        rq_data = pd\<rparr>) (take i defs)))))
                      [0..<length defs],
            sent @ map (\<lambda>pd. \<lparr>rq_method = POST, rq_url = baseUrl @ endpoint_properties,
                               rq_data = pd\<rparr>) defs)"
  using assms
proof (induction defs arbitrary: acc sent)
  case Nil
  then show ?case by simp
next
  case (Cons pd defs)
  let ?req = "\<lambda>pd. \<lparr>rq_method = POST, rq_url = baseUrl @ endpoint_properties, rq_data = pd\<rparr>"
  have wf: "\<not> nullish pd" "toString (field pd ''name'') \<noteq> None"
    using Cons.prems by simp_all
  have rest: "\<forall>pd \<in> set defs. \<not> nullish pd \<and> toString (field pd ''name'') \<noteq> None"
    using Cons.prems by simp
  obtain r where cp: "createProperty baseUrl R pd sent = (r, sent @ [?req pd])"
    using createProperty_sent[OF wf, of baseUrl R sent]
    by (cases "createProperty baseUrl R pd sent") auto
  have step: "createAll_loop baseUrl R (pd # defs) acc sent =
          createAll_loop baseUrl R defs (acc @ [expectedResult pd r]) (sent @ [?req pd])"
    by (simp add: cp expectedResult_def)
  have shift: "map (\<lambda>i. expectedResult ((pd # defs) ! i)
                     (fst (createProperty baseUrl R ((pd # defs) ! i)
                             (sent @ map ?req (take i (pd # defs))))))
                 [0..<length (pd # defs)]
             = expectedResult pd r
               # map (\<lambda>i. expectedResult (defs ! i)
                     (fst (createProperty baseUrl R (defs ! i)
                             ((sent @ [?req pd]) @ map ?req (take i defs)))))
                   [0..<length defs]"
    by (simp add: map_upt_Suc cp del: upt_Suc)
  show ?case
    unfolding step Cons.IH[OF rest] shift by simp
qed

lemma createAll_exact:
  "createAllCustomProperties baseUrl R sent =
     (map (\<lambda>i. expectedResult (getCustomPropertiesDefinitions ! i) (attempt baseUrl R sent i))
          [0..<4],
      sent @ catalogRequests baseUrl)"
  unfolding createAllCustomProperties_def createAll_loop_exact[OF catalog_wellformed]
  by (simp add: attempt_def catalogRequests_def catalog_length take_map)

lemma expectedResult_flag:
  "field (expectedResult pd outcome) ''success'' = JBool (\<not> isl outcome)"
  by (cases outcome) (simp_all add: expectedResult_def getOwn_def)

lemma expectedResult_name: "field (expectedResult pd outcome) ''name'' = field pd ''name''"
  by (cases outcome) (simp_all add: expectedResult_def getOwn_def)

lemma createProperty_allowed:
  assumes "\<not> nullish pd" and "toString (field pd ''name'') \<noteq> None"
  shows "(\<not> isl (fst (createProperty baseUrl R pd sent)))
         = remoteAllows (R sent \<lparr>rq_method = POST, rq_url = baseUrl @ endpoint_properties,
                                  rq_data = pd\<rparr>)"
proof (cases "R sent \<lparr>rq_method = POST, rq_url = baseUrl @ endpoint_properties, rq_data = pd\<rparr>")
  case (Resolved d)
  show ?thesis
    using createProperty_resolved[where baseUrl=baseUrl and R=R and sent=sent, OF assms Resolved]
    by (simp add: Resolved remoteAllows_def)
next
  case (Rejected m r)
  show ?thesis
    using createProperty_rejected[where baseUrl=baseUrl and R=R and sent=sent, OF assms Rejected]
    by (cases r) (auto simp: Rejected remoteAllows_def)
qed

lemma attempt_allowed:
  assumes "i < 4"
  shows "(\<not> isl (attempt baseUrl R sent i))
         = remoteAllows (R (sent @ take i (catalogRequests baseUrl))
                           (catalogRequests baseUrl ! i))"
proof -
  have mem: "getCustomPropertiesDefinitions ! i \<in> set getCustomPropertiesDefinitions"
    using assms by (simp add: catalog_length)
  have wf: "\<not> nullish (getCustomPropertiesDefinitions ! i)"
    "toString (field (getCustomPropertiesDefinitions ! i) ''name'') \<noteq> None"
    using catalog_wellformed mem by blast+
  have rq: "catalogRequests baseUrl ! i =
              \<lparr>rq_method = POST, rq_url = baseUrl @ endpoint_properties,
               rq_data = getCustomPropertiesDefinitions ! i\<rparr>"
    using assms by (simp add: catalogRequests_def catalog_length)
  show ?thesis
    unfolding attempt_def rq by (rule createProperty_allowed[OF wf])
qed

lemma count_flags:
  "length (filter (\<lambda>r. truthy (field r ''success''))
             (map (\<lambda>i. expectedResult (pds ! i) (out i)) xs))
     = length (filter (\<lambda>i. \<not> isl (out i)) xs)"
  "length (filter (\<lambda>r. \<not> truthy (field r ''success''))
             (map (\<lambda>i. expectedResult (pds ! i) (out i)) xs))
     = length (filter (\<lambda>i. isl (out i)) xs)"
  by (simp_all add: filter_map comp_def expectedResult_flag)

lemma none_failed:
  "(length (filter (\<lambda>i. isl (out i)) [0..<4]) = 0) = (\<forall>i<4. \<not> isl (out i))"
  by (auto simp: filter_empty_conv)

text \<open>
  C7. Every run of \<open>createAllCustomProperties\<close> sends the creation request of each of the
  four catalog definitions, in catalog order, whatever the earlier attempts gave, and
  returns for each definition, in that order, the expected result: its name, and the flag
  true with the data when the attempt returned (the remote side answered with a record or
  with a conflict), the flag false with the error message when it threw. The setup
  endpoint answers 201 exactly when no attempt threw and 207 otherwise, with those results
  and a summary of the total (4), the number of attempts that returned and the number that
  threw.
\<close>

theorem createAllCustomProperties_best_effort:
  "snd (createAllCustomProperties baseUrl R sent) = sent @ catalogRequests baseUrl
   \<and> length (catalogRequests baseUrl) = 4
   \<and> fst (createAllCustomProperties baseUrl R sent) =
       map (\<lambda>i. expectedResult (getCustomPropertiesDefinitions ! i) (attempt baseUrl R sent i))
           [0..<4]
   \<and> map (\<lambda>r. field r ''name'') (fst (createAllCustomProperties baseUrl R sent)) =
       [JStr ''candidate_experience'', JStr ''candidate_date_of_joining'',
        JStr ''candidate_name'', JStr ''candidate_past_company'']
   \<and> map (\<lambda>r. field r ''success'') (fst (createAllCustomProperties baseUrl R sent)) =
       map (\<lambda>i. JBool (\<not> isl (attempt baseUrl R sent i))) [0..<4]
   \<and> (\<forall>i<4. (\<not> isl (attempt baseUrl R sent i))
              = remoteAllows (R (sent @ take i (catalogRequests baseUrl))
                                (catalogRequests baseUrl ! i)))
   \<and> status (fst (post_setup baseUrl R sent)) =
       (if \<forall>i<4. \<not> isl (attempt baseUrl R sent i) then 201 else 207)
   \<and> field (field (body (fst (post_setup baseUrl R sent))) ''data'') ''summary'' =
       JObj [(''total'', JNum 4),
             (''successful'',
              JNum (int (length (filter (\<lambda>i. \<not> isl (attempt baseUrl R sent i)) [0..<4])))),
             (''failed'',
              JNum (int (length (filter (\<lambda>i. isl (attempt baseUrl R sent i)) [0..<4]))))]
   \<and> field (field (body (fst (post_setup baseUrl R sent))) ''data'') ''results'' =
       JArr (fst (createAllCustomProperties baseUrl R sent))
   \<and> snd (post_setup baseUrl R sent) = sent @ catalogRequests baseUrl"
proof -
  note run = createAll_exact[of baseUrl R sent]
  have names: "map (\<lambda>r. field r ''name'') (fst (createAllCustomProperties baseUrl R sent)) =
       [JStr ''candidate_experience'', JStr ''candidate_date_of_joining'',
        JStr ''candidate_name'', JStr ''candidate_past_company'']"
  proof -
    have "map (\<lambda>r. field r ''name'') (fst (createAllCustomProperties baseUrl R sent))
          = map (\<lambda>i. field (getCustomPropertiesDefinitions ! i) ''name'') [0..<4]"
      by (simp add: run comp_def expectedResult_name)
    also have "\<dots> = map (\<lambda>pd. field pd ''name'')
                       (map ((!) getCustomPropertiesDefinitions)
                            [0..<length getCustomPropertiesDefinitions])"
      by (simp add: catalog_length comp_def)
    also have "\<dots> = map (\<lambda>pd. field pd ''name'') getCustomPropertiesDefinitions"
      by (simp only: map_nth)
    finally show ?thesis by (simp add: catalog_names)
  qed
  have flags: "map (\<lambda>r. field r ''success'') (fst (createAllCustomProperties baseUrl R sent)) =
       map (\<lambda>i. JBool (\<not> isl (attempt baseUrl R sent i))) [0..<4]"
    by (simp add: run comp_def expectedResult_flag)
  have allowed: "\<forall>i<4. (\<not> isl (attempt baseUrl R sent i))
              = remoteAllows (R (sent @ take i (catalogRequests baseUrl))
                                (catalogRequests baseUrl ! i))"
    using attempt_allowed by blast
  have st: "status (fst (post_setup baseUrl R sent)) =
       (if \<forall>i<4. \<not> isl (attempt baseUrl R sent i) then 201 else 207)"
    unfolding post_setup_def run Let_def split_conv count_flags none_failed[symmetric]
    by simp
  have summary: "field (field (body (fst (post_setup baseUrl R sent))) ''data'') ''summary'' =
       JObj [(''total'', JNum 4),
             (''successful'',
              JNum (int (length (filter (\<lambda>i. \<not> isl (attempt baseUrl R sent i)) [0..<4])))),
             (''failed'',
              JNum (int (length (filter (\<lambda>i. isl (attempt baseUrl R sent i)) [0..<4]))))]"
    unfolding post_setup_def run Let_def split_conv count_flags
    by (simp add: getOwn_def)
  have results: "field (field (body (fst (post_setup baseUrl R sent))) ''data'') ''results'' =
       JArr (fst (createAllCustomProperties baseUrl R sent))"
    unfolding post_setup_def Let_def split_def by (simp add: getOwn_def)
  have sn: "snd (post_setup baseUrl R sent) = sent @ catalogRequests baseUrl"
    unfolding post_setup_def run Let_def split_conv by simp
  have four: "length (catalogRequests baseUrl) = 4"
    by (simp add: catalogRequests_def catalog_length)
  show ?thesis
    using names flags allowed st summary results sn four
    by (simp add: run)
qed


theorem createAllCustomProperties_best_effort_witness:
  "map (\<lambda>r. field r ''success'')
       (fst (createAllCustomProperties ''https://api.hubapi.com''
               (remoteFailsFor ''candidate_date_of_joining'') []))
     = [JBool True, JBool False, JBool True, JBool True]
   \<and> isl (attempt ''https://api.hubapi.com'' (remoteFailsFor ''candidate_date_of_joining'') [] 1)
   \<and> \<not> remoteAllows
          (remoteFailsFor ''candidate_date_of_joining''
             ([] @ take 1 (catalogRequests ''https://api.hubapi.com''))
             (catalogRequests ''https://api.hubapi.com'' ! 1))
   \<and> \<not> isl (attempt ''https://api.hubapi.com'' (remoteFailsFor ''candidate_date_of_joining'') [] 2)
   \<and> status (fst (post_setup ''https://api.hubapi.com''
                     (remoteFailsFor ''candidate_date_of_joining'') [])) = 207
   \<and> field (field (body (fst (post_setup ''https://api.hubapi.com''
                     (remoteFailsFor ''candidate_date_of_joining'') []))) ''data'') ''summary''
     = JObj [(''total'', JNum 4), (''successful'', JNum 3), (''failed'', JNum 1)]
   \<and> length (snd (post_setup ''https://api.hubapi.com''
                     (remoteFailsFor ''candidate_date_of_joining'') [])) = 4
   \<and> status (fst (post_setup ''https://api.hubapi.com'' (remoteRejects 409) [])) = 201"
proof -
  let ?b = "''https://api.hubapi.com''"
  let ?R = "remoteFailsFor ''candidate_date_of_joining''"
  have upt4: "[0..<4] = [0, 1, 2, Suc 2]"
    by (simp add: upt_rec)
  have ev: "map (\<lambda>r. field r ''success'') (fst (createAllCustomProperties ?b ?R []))
       = [JBool True, JBool False, JBool True, JBool True]"
    by (simp add: createAllCustomProperties_def getCustomPropertiesDefinitions_def
          createProperty_def axios_def remoteFailsFor_def getOwn_def)
  have ev2: "map (\<lambda>r. field r ''success'') (fst (createAllCustomProperties ?b (remoteRejects 409) []))
       = [JBool True, JBool True, JBool True, JBool True]"
    by (simp add: createAllCustomProperties_def getCustomPropertiesDefinitions_def
          createProperty_def axios_def remoteRejects_def getOwn_def)
  note T = createAllCustomProperties_best_effort[of ?b ?R "[]"]
  note T2 = createAllCustomProperties_best_effort[of ?b "remoteRejects 409" "[]"]
  from T ev have a: "\<not> isl (attempt ?b ?R [] 0)" "isl (attempt ?b ?R [] 1)"
    "\<not> isl (attempt ?b ?R [] 2)" "\<not> isl (attempt ?b ?R [] (Suc 2))"
    by (simp_all add: upt4)
  from T2 ev2 have a2: "\<not> isl (attempt ?b (remoteRejects 409) [] 0)"
    "\<not> isl (attempt ?b (remoteRejects 409) [] 1)"
    "\<not> isl (attempt ?b (remoteRejects 409) [] 2)"
    "\<not> isl (attempt ?b (remoteRejects 409) [] (Suc 2))"
    by (simp_all add: upt4)
  have lt4: "(\<forall>i<4. P i) = (P 0 \<and> P 1 \<and> P 2 \<and> P (Suc 2))" for P :: "nat \<Rightarrow> bool"
  proof -
    have "(i < 4) = (i = 0 \<or> i = 1 \<or> i = 2 \<or> i = Suc 2)" for i :: nat
      by arith
    then show ?thesis by auto
  qed
  from T have allowed: "(\<not> isl (attempt ?b ?R [] 1))
      = remoteAllows (?R ([] @ take 1 (catalogRequests ?b)) (catalogRequests ?b ! 1))"
    unfolding lt4 by blast
  from T have st: "status (fst (post_setup ?b ?R [])) = 207"
    unfolding lt4 using a by simp
  from T2 have st2: "status (fst (post_setup ?b (remoteRejects 409) [])) = 201"
    unfolding lt4 using a2 by simp
  from T have summary: "field (field (body (fst (post_setup ?b ?R []))) ''data'') ''summary''
     = JObj [(''total'', JNum 4), (''successful'', JNum 3), (''failed'', JNum 1)]"
    using a by (simp add: upt4)
  from T have len: "length (snd (post_setup ?b ?R [])) = 4"
    by simp
  show ?thesis
    using ev a(2,3) allowed st summary len st2 by simp
qed

section \<open>Searching contacts\<close>

lemma search_filters_eq:
  "search_filters query =
     concat (map (\<lambda>(src, dst). if truthy (getOwn query src) then [(dst, getOwn query src)] else [])
                 recognizedParameters)"
  by (simp add: search_filters_def copyTruthy_def recognizedParameters_def)

lemma truthy_queryValue: "isQueryValue v \<Longrightarrow> truthy v \<longleftrightarrow> v \<noteq> JStr []"
  by (cases v) auto

lemma getOwn_cases: "getOwn q k = JUndefined \<or> (k, getOwn q k) \<in> set q"
  by (auto simp: getOwn_def split: option.splits dest: map_of_SomeD)

lemma truthy_getOwn:
  assumes "\<forall>p \<in> set q. isQueryValue (snd p)"
  shows "truthy (getOwn q k) \<longleftrightarrow> getOwn q k \<noteq> JUndefined \<and> getOwn q k \<noteq> JStr []"
proof (cases "getOwn q k = JUndefined")
  case True
  then show ?thesis by simp
next
  case False
  then have "(k, getOwn q k) \<in> set q" using getOwn_cases[of q k] by simp
  then have "isQueryValue (getOwn q k)" using assms by fastforce
  then show ?thesis using False by (simp add: truthy_queryValue)
qed

lemma concat_map_if:
  "concat (map (\<lambda>x. if P x then [f x] else []) xs) = map f (filter P xs)"
  by (induction xs) auto

lemma search_filters_present:
  assumes "\<forall>p \<in> set q. isQueryValue (snd p)"
  shows "search_filters q =
           map (\<lambda>(src, dst). (dst, getOwn q src))
               (filter (\<lambda>(src, dst). getOwn q src \<noteq> JUndefined \<and> getOwn q src \<noteq> JStr [])
                       recognizedParameters)"
proof -
  have "search_filters q =
          concat (map (\<lambda>p. if truthy (getOwn q (fst p)) then [(snd p, getOwn q (fst p))] else [])
                      recognizedParameters)"
    by (simp add: search_filters_eq split_def)
  also have "\<dots> = map (\<lambda>p. (snd p, getOwn q (fst p)))
                      (filter (\<lambda>p. truthy (getOwn q (fst p))) recognizedParameters)"
    by (rule concat_map_if)
  finally show ?thesis
    by (simp add: truthy_getOwn[OF assms] split_def)
qed

lemma sequence_length: "sequence xs = Some ys \<Longrightarrow> length ys = length xs"
proof (induction xs arbitrary: ys)
  case Nil
  then show ?case by simp
next
  case (Cons x xs)
  then show ?case by (cases x) (auto split: option.splits)
qed

lemma sequence_singletons:
  "sequence (map (\<lambda>x. map_option (\<lambda>y. [y]) (g x)) xs)
     = map_option (map (\<lambda>y. [y])) (sequence (map g xs))"
proof (induction xs)
  case Nil
  then show ?case by simp
next
  case (Cons x xs)
  then show ?case by (cases "g x") (auto split: option.splits)
qed

lemma concat_singletons: "concat (map (\<lambda>y. [y]) ys) = ys"
  by (induction ys) auto

lemma filterPredicate_present:
  "v \<noteq> JUndefined \<Longrightarrow> v \<noteq> JNull \<Longrightarrow>
   filterPredicate (dst, v) =
     map_option (\<lambda>y. [y])
       (map_option (\<lambda>s. JObj [(''propertyName'', JStr dst), (''operator'', JStr ''EQ''),
                              (''value'', JStr s)]) (toString v))"
  by (simp add: filterPredicate_def split: option.splits)

lemma filterPredicates_expected:
  assumes "\<forall>p \<in> set q. isQueryValue (snd p)"
  shows "sequence (map filterPredicate (search_filters q))
           = map_option (map (\<lambda>y. [y])) (expectedPredicates q)"
proof -
  let ?F = "filter (\<lambda>(src, dst). getOwn q src \<noteq> JUndefined \<and> getOwn q src \<noteq> JStr [])
                   recognizedParameters"
  let ?g = "\<lambda>(src, dst). map_option (\<lambda>s. JObj [(''propertyName'', JStr dst),
                 (''operator'', JStr ''EQ''), (''value'', JStr s)]) (toString (getOwn q src))"
  have nn: "getOwn q src \<noteq> JNull" if "(src, dst) \<in> set ?F" for src dst
  proof -
    from that have "getOwn q src \<noteq> JUndefined" by simp
    then have "(src, getOwn q src) \<in> set q" using getOwn_cases[of q src] by simp
    then have "isQueryValue (getOwn q src)" using assms by fastforce
    then show ?thesis by (cases "getOwn q src") auto
  qed
  have "map filterPredicate (search_filters q)
        = map (\<lambda>p. filterPredicate (snd p, getOwn q (fst p))) ?F"
    by (simp add: search_filters_present[OF assms] split_def comp_def)
  also have "\<dots> = map (\<lambda>p. map_option (\<lambda>y. [y]) (?g p)) ?F"
  proof (rule map_cong[OF refl])
    fix p assume p: "p \<in> set ?F"
    obtain src dst where sd: "p = (src, dst)" by (cases p)
    with p have "getOwn q src \<noteq> JUndefined" by simp
    moreover from p sd have "getOwn q src \<noteq> JNull" using nn by blast
    ultimately show "filterPredicate (snd p, getOwn q (fst p)) = map_option (\<lambda>y. [y]) (?g p)"
      by (simp add: sd filterPredicate_present)
  qed
  finally have "sequence (map filterPredicate (search_filters q))
                = sequence (map (\<lambda>p. map_option (\<lambda>y. [y]) (?g p)) ?F)"
    by simp
  also have "\<dots> = map_option (map (\<lambda>y. [y])) (sequence (map ?g ?F))"
    by (rule sequence_singletons)
  finally show ?thesis by (simp add: expectedPredicates_def)
qed

lemma searchPayload_expected:
  assumes "\<forall>p \<in> set q. isQueryValue (snd p)"
  shows "map_option (\<lambda>payload. \<lparr>rq_method = POST, rq_url = baseUrl @ endpoint_contactsSearch,
                                 rq_data = payload\<rparr>)
                    (searchPayload (search_filters q) l)
         = map_option (\<lambda>preds. expectedSearchRequest baseUrl preds l) (expectedPredicates q)"
proof (cases "expectedPredicates q")
  case None
  then show ?thesis
    by (simp add: searchPayload_def filterPredicates_expected[OF assms])
next
  case (Some preds)
  then have sq: "sequence (map filterPredicate (search_filters q)) = Some (map (\<lambda>y. [y]) preds)"
    by (simp add: filterPredicates_expected[OF assms])
  from sequence_length[OF sq] have len: "length (search_filters q) = length preds"
    by simp
  show ?thesis
    by (simp add: searchPayload_def sq Some concat_singletons len expectedSearchRequest_def
          searchContacts_properties_def)
qed

lemma searchContacts_sent:
  "l \<noteq> JUndefined \<Longrightarrow>
   snd (searchContacts baseUrl R (JObj f) l sent) =
     (case searchPayload f l of
        None \<Rightarrow> sent
      | Some payload \<Rightarrow> sent @ [\<lparr>rq_method = POST, rq_url = baseUrl @ endpoint_contactsSearch,
                                 rq_data = payload\<rparr>])"
  by (simp add: searchContacts_def axios_def Let_def
           split: option.splits axios_outcome.splits)

lemma search_limit_defined: "search_limit q = Some l \<Longrightarrow> l \<noteq> JUndefined"
  by (auto simp: search_limit_def js_or_def split: if_splits)

lemma search_contacts_sent:
  "snd (search_contacts baseUrl R q sent) =
     (case search_limit q of
        None \<Rightarrow> sent
      | Some l \<Rightarrow> snd (searchContacts baseUrl R (JObj (search_filters q)) l sent))"
  by (simp add: search_contacts_def Let_def split_def
           split: option.splits sum.splits jsval.splits)


lemma getOwn_delete:
  "getOwn (AList.delete k q) k' = (if k' = k then JUndefined else getOwn q k')"
  by (simp add: getOwn_def AList.delete_conv')

lemma search_contacts_cong:
  assumes "search_limit q1 = search_limit q2" and "search_filters q1 = search_filters q2"
  shows "search_contacts baseUrl R q1 sent = search_contacts baseUrl R q2 sent"
  unfolding search_contacts_def assms ..

lemma search_empty_string_absent:
  assumes "(src, dst) \<in> set recognizedParameters" and "getOwn q src = JStr []"
  shows "search_contacts baseUrl R (AList.delete src q) sent = search_contacts baseUrl R q sent"
proof (rule search_contacts_cong)
  have "src \<noteq> ''limit''"
    using assms(1) by (auto simp: recognizedParameters_def)
  then show "search_limit (AList.delete src q) = search_limit q"
    by (simp add: search_limit_def getOwn_delete)
next
  have "(if truthy (getOwn (AList.delete src q) s) then [(d, getOwn (AList.delete src q) s)] else [])
      = (if truthy (getOwn q s) then [(d, getOwn q s)] else [])" for s and d :: string
    using assms(2) by (simp add: getOwn_delete)
  then show "search_filters (AList.delete src q) = search_filters q"
    by (simp add: search_filters_eq split_def)
qed

text \<open>
  C10. For every search request whose query holds values of the query parser: a
  recognised parameter whose value is the empty string is treated exactly as if it were
  absent (the handler's outcome is that of the query without it); a limit that parses to
  NaN or to 0 is replaced by 10; and the search request sent, if any, is the expected
  one: at most one filter group, holding one \<open>EQ\<close> predicate per recognised parameter
  that is present and not the empty string, with its value coerced to a string, and the
  limit that \<open>parseInt(req.query.limit) || 10\<close> gives. No request is sent only when a
  value has no string form.
\<close>

theorem search_request_shape:
  assumes "\<forall>p \<in> set query. isQueryValue (snd p)"
  shows "(\<forall>(src, dst) \<in> set recognizedParameters.
            getOwn query src = JStr [] \<longrightarrow>
            search_contacts baseUrl R (AList.delete src query) sent
              = search_contacts baseUrl R query sent)
       \<and> (parseInt (getOwn query ''limit'') = Some JNaN
            \<or> parseInt (getOwn query ''limit'') = Some (JNum 0)
          \<longrightarrow> search_limit query = Some (JNum 10))
       \<and> snd (search_contacts baseUrl R query sent) =
           (case search_limit query of
              None \<Rightarrow> sent
            | Some l \<Rightarrow>
                (case expectedPredicates query of
                   None \<Rightarrow> sent
                 | Some preds \<Rightarrow> sent @ [expectedSearchRequest baseUrl preds l]))"
proof (intro conjI)
  show "\<forall>(src, dst) \<in> set recognizedParameters.
            getOwn query src = JStr [] \<longrightarrow>
            search_contacts baseUrl R (AList.delete src query) sent
              = search_contacts baseUrl R query sent"
    using search_empty_string_absent by blast
next
  show "parseInt (getOwn query ''limit'') = Some JNaN
            \<or> parseInt (getOwn query ''limit'') = Some (JNum 0)
          \<longrightarrow> search_limit query = Some (JNum 10)"
    by (auto simp: search_limit_def js_or_def)
next
  show "snd (search_contacts baseUrl R query sent) =
           (case search_limit query of
              None \<Rightarrow> sent
            | Some l \<Rightarrow>
                (case expectedPredicates query of
                   None \<Rightarrow> sent
                 | Some preds \<Rightarrow> sent @ [expectedSearchRequest baseUrl preds l]))"
  proof (cases "search_limit query")
    case None
    then show ?thesis by (simp add: search_contacts_sent)
  next
    case (Some l)
    show ?thesis
      using searchPayload_expected[OF assms, of baseUrl l]
      by (cases "searchPayload (search_filters query) l"; cases "expectedPredicates query")
         (simp_all add: search_contacts_sent Some searchContacts_sent[OF search_limit_defined[OF Some]])
  qed
qed

lemma bitLength_numeral: "bitLength (numeral k) = Suc (bitLength (numeral k div 2))"
  by (subst bitLength.simps) simp

lemma bitLength_0: "bitLength 0 = 0"
  by (subst bitLength.simps) simp

lemma parseIntString_rounds: "parseIntString ''9007199254740993'' = JNum 9007199254740992"
  by (simp add: parseIntString_def js_space_def digitValue_def toNumber_def nearestDouble_def
        Let_def bitLength_numeral bitLength_0)

theorem search_request_shape_witness:
  "list_all (isQueryValue \<circ> snd)
       [(''firstName'', JStr ''Ann''), (''email'', JStr []), (''limit'', JStr ''abc''),
        (''ownerId'', JArr [JStr ''7'', JStr ''8''])]
   \<and> search_contacts ''https://api.hubapi.com'' remoteAccepts
        (AList.delete ''email''
           [(''firstName'', JStr ''Ann''), (''email'', JStr []), (''limit'', JStr ''abc''),
            (''ownerId'', JArr [JStr ''7'', JStr ''8''])]) []
      = search_contacts ''https://api.hubapi.com'' remoteAccepts
          [(''firstName'', JStr ''Ann''), (''email'', JStr []), (''limit'', JStr ''abc''),
           (''ownerId'', JArr [JStr ''7'', JStr ''8''])] []
   \<and> search_limit [(''firstName'', JStr ''Ann''), (''email'', JStr []), (''limit'', JStr ''abc''),
                    (''ownerId'', JArr [JStr ''7'', JStr ''8''])] = Some (JNum 10)
   \<and> snd (search_contacts ''https://api.hubapi.com'' remoteAccepts
             [(''firstName'', JStr ''Ann''), (''email'', JStr []), (''limit'', JStr ''abc''),
              (''ownerId'', JArr [JStr ''7'', JStr ''8''])] [])
      = [expectedSearchRequest ''https://api.hubapi.com''
           [JObj [(''propertyName'', JStr ''firstname''), (''operator'', JStr ''EQ''),
                  (''value'', JStr ''Ann'')],
            JObj [(''propertyName'', JStr ''hubspot_owner_id''), (''operator'', JStr ''EQ''),
                  (''value'', JStr ''7,8'')]] (JNum 10)]
   \<and> list_all (isQueryValue \<circ> snd) [(''limit'', JStr ''9007199254740993'')]
   \<and> snd (search_contacts ''https://api.hubapi.com'' remoteAccepts
             [(''limit'', JStr ''9007199254740993'')] [])
      = [expectedSearchRequest ''https://api.hubapi.com'' [] (JNum 9007199254740992)]"
proof -
  let ?q = "[(''firstName'', JStr ''Ann''), (''email'', JStr []), (''limit'', JStr ''abc''),
             (''ownerId'', JArr [JStr ''7'', JStr ''8''])]"
  let ?q2 = "[(''limit'', JStr ''9007199254740993'')]"
  have h: "\<forall>p \<in> set ?q. isQueryValue (snd p)" by simp
  have h2: "\<forall>p \<in> set ?q2. isQueryValue (snd p)" by simp
  have g: "getOwn ?q ''email'' = JStr []" "getOwn ?q ''firstName'' = JStr ''Ann''"
    "getOwn ?q ''lastName'' = JUndefined" "getOwn ?q ''ownerId'' = JArr [JStr ''7'', JStr ''8'']"
    "getOwn ?q ''candidateExperience'' = JUndefined"
    "getOwn ?q ''candidatePastCompany'' = JUndefined" "getOwn ?q ''limit'' = JStr ''abc''"
    by (simp_all add: getOwn_def)
  have p: "parseInt (JStr ''abc'') = Some JNaN"
    by (simp add: parseInt_def parseIntString_def js_space_def digitValue_def)
  have e: "expectedPredicates ?q =
             Some [JObj [(''propertyName'', JStr ''firstname''), (''operator'', JStr ''EQ''),
                         (''value'', JStr ''Ann'')],
                   JObj [(''propertyName'', JStr ''hubspot_owner_id''), (''operator'', JStr ''EQ''),
                         (''value'', JStr ''7,8'')]]"
    unfolding expectedPredicates_def recognizedParameters_def by (simp add: g)
  have e2: "expectedPredicates ?q2 = Some []"
    unfolding expectedPredicates_def recognizedParameters_def by (simp add: getOwn_def)
  have l2: "search_limit ?q2 = Some (JNum 9007199254740992)"
    by (simp add: search_limit_def parseInt_def getOwn_def parseIntString_rounds js_or_def)
  have first: "search_contacts ''https://api.hubapi.com'' remoteAccepts
        (AList.delete ''email'' ?q) []
      = search_contacts ''https://api.hubapi.com'' remoteAccepts ?q []
   \<and> search_limit ?q = Some (JNum 10)
   \<and> snd (search_contacts ''https://api.hubapi.com'' remoteAccepts ?q [])
      = [expectedSearchRequest ''https://api.hubapi.com''
           [JObj [(''propertyName'', JStr ''firstname''), (''operator'', JStr ''EQ''),
                  (''value'', JStr ''Ann'')],
            JObj [(''propertyName'', JStr ''hubspot_owner_id''), (''operator'', JStr ''EQ''),
                  (''value'', JStr ''7,8'')]] (JNum 10)]"
    using search_request_shape[OF h, of "''https://api.hubapi.com''" remoteAccepts "[]"]
    unfolding e by (simp add: recognizedParameters_def g p)
  have second: "snd (search_contacts ''https://api.hubapi.com'' remoteAccepts ?q2 [])
      = [expectedSearchRequest ''https://api.hubapi.com'' [] (JNum 9007199254740992)]"
    using search_request_shape[OF h2, of "''https://api.hubapi.com''" remoteAccepts "[]"]
    unfolding e2 l2 by simp
  show ?thesis
    using first second by simp
qed

section \<open>Validation of updates\<close>

lemma patch_updateData_lookup:
  "map_of (patch_updateData b) k =
     (if k \<in> {''firstName'', ''lastName'', ''email'', ''phone'', ''ownerId'',
                ''candidateExperience'', ''candidateDateOfJoining'', ''candidateName'',
                ''candidatePastCompany''} \<and> field b k \<noteq> JUndefined
      then Some (field b k) else None)"
  by (auto simp: patch_updateData_def map_of_copyDefined)

lemma patch_updateData_email: "getOwn (patch_updateData b) ''email'' = field b ''email''"
  by (simp add: getOwn_def patch_updateData_lookup)

lemma patch_updateData_empty:
  assumes "\<forall>f \<in> set [''firstName'', ''lastName'', ''email'', ''phone'', ''ownerId'',
                ''candidateExperience'', ''candidateDateOfJoining'', ''candidateName'',
                ''candidatePastCompany'']. field b f = JUndefined"
  shows "patch_updateData b = []"
  using assms by (simp add: patch_updateData_def copyDefined_def)

lemma patch_updateData_nonempty:
  assumes "field b ''email'' \<noteq> JUndefined"
  shows "patch_updateData b \<noteq> []"
proof
  assume "patch_updateData b = []"
  then have "map_of (patch_updateData b) ''email'' = None" by simp
  then show False using assms by (simp add: patch_updateData_lookup)
qed

lemma field_defined_body: "field b k \<noteq> JUndefined \<Longrightarrow> \<not> nullish b"
  by (cases b) auto

lemma truthy_defined: "truthy v \<Longrightarrow> v \<noteq> JUndefined"
  by (cases v) auto

lemma patch_contact_ended:
  assumes "\<not> nullish reqBody" and "patch_emailCheck (patch_updateData reqBody) = Inl res"
  shows "patch_contact baseUrl R contactId reqBody sent = (res, sent)"
  using assms by (simp add: patch_contact_def)

text \<open>
  C5 (amended). For every update request: without a parsed body (\<open>req.body\<close> is
  \<open>undefined\<close> or \<open>null\<close>) the handler answers 500 and calls nothing; with a body in which
  none of the nine recognised fields is present it answers 400 without calling the remote
  service; when the email field is present with a truthy value whose string form does not
  match the pattern it answers 400 before any remote call (500, still before any call,
  when the value has no string form); and an email that is present but falsy (the empty
  string, \<open>null\<close>, \<open>false\<close>, 0) is not validated: the update request is sent.
\<close>

theorem patch_contact_validation:
  "(nullish reqBody
      \<longrightarrow> status (fst (patch_contact baseUrl R contactId reqBody sent)) = 500
        \<and> snd (patch_contact baseUrl R contactId reqBody sent) = sent)
   \<and> (\<not> nullish reqBody
       \<and> (\<forall>f \<in> set [''firstName'', ''lastName'', ''email'', ''phone'', ''ownerId'',
                ''candidateExperience'', ''candidateDateOfJoining'', ''candidateName'',
                ''candidatePastCompany'']. field reqBody f = JUndefined)
      \<longrightarrow> status (fst (patch_contact baseUrl R contactId reqBody sent)) = 400
        \<and> snd (patch_contact baseUrl R contactId reqBody sent) = sent)
   \<and> (truthy (field reqBody ''email'')
       \<and> emailRegex_test (field reqBody ''email'') = Some False
      \<longrightarrow> status (fst (patch_contact baseUrl R contactId reqBody sent)) = 400
        \<and> snd (patch_contact baseUrl R contactId reqBody sent) = sent)
   \<and> (truthy (field reqBody ''email'')
       \<and> emailRegex_test (field reqBody ''email'') = None
      \<longrightarrow> status (fst (patch_contact baseUrl R contactId reqBody sent)) = 500
        \<and> snd (patch_contact baseUrl R contactId reqBody sent) = sent)
   \<and> (field reqBody ''email'' \<noteq> JUndefined \<and> \<not> truthy (field reqBody ''email'')
      \<longrightarrow> snd (patch_contact baseUrl R contactId reqBody sent) =
            sent @ [\<lparr>rq_method = PATCH,
                     rq_url = baseUrl @ endpoint_contacts @ ''/'' @ contactId,
                     rq_data = JObj [(''properties'',
                        JObj (updateContact_properties
                                (JObj (patch_updateData reqBody))))]\<rparr>])"
proof (intro conjI impI)
  assume "nullish reqBody"
  then show "status (fst (patch_contact baseUrl R contactId reqBody sent)) = 500"
    and "snd (patch_contact baseUrl R contactId reqBody sent) = sent"
    by (simp_all add: patch_contact_def contactsError_def)
next
  assume a: "\<not> nullish reqBody
       \<and> (\<forall>f \<in> set [''firstName'', ''lastName'', ''email'', ''phone'', ''ownerId'',
                ''candidateExperience'', ''candidateDateOfJoining'', ''candidateName'',
                ''candidatePastCompany'']. field reqBody f = JUndefined)"
  then have e: "patch_updateData reqBody = []" by (simp add: patch_updateData_empty)
  show "status (fst (patch_contact baseUrl R contactId reqBody sent)) = 400"
    using a by (simp add: patch_contact_def e patch_emailCheck_def getOwn_def)
  show "snd (patch_contact baseUrl R contactId reqBody sent) = sent"
    using a by (simp add: patch_contact_def e patch_emailCheck_def getOwn_def)
next
  assume a: "truthy (field reqBody ''email'')
          \<and> emailRegex_test (field reqBody ''email'') = Some False"
  then have n: "\<not> nullish reqBody"
    using field_defined_body truthy_defined by blast
  from a have c: "patch_emailCheck (patch_updateData reqBody) =
                  Inl \<lparr>status = 400,
                       body = JObj [(''success'', JBool False),
                                    (''error'', JStr ''Invalid email format'')]\<rparr>"
    by (simp add: patch_emailCheck_def patch_updateData_email)
  show "status (fst (patch_contact baseUrl R contactId reqBody sent)) = 400"
    by (simp add: patch_contact_ended[OF n c])
  show "snd (patch_contact baseUrl R contactId reqBody sent) = sent"
    by (simp add: patch_contact_ended[OF n c])
next
  assume a: "truthy (field reqBody ''email'')
          \<and> emailRegex_test (field reqBody ''email'') = None"
  then have n: "\<not> nullish reqBody"
    using field_defined_body truthy_defined by blast
  from a have c: "patch_emailCheck (patch_updateData reqBody) = Inl (contactsError convertError)"
    by (simp add: patch_emailCheck_def patch_updateData_email)
  show "status (fst (patch_contact baseUrl R contactId reqBody sent)) = 500"
    by (simp add: patch_contact_ended[OF n c] contactsError_def)
  show "snd (patch_contact baseUrl R contactId reqBody sent) = sent"
    by (simp add: patch_contact_ended[OF n c])
next
  assume a: "field reqBody ''email'' \<noteq> JUndefined \<and> \<not> truthy (field reqBody ''email'')"
  then have nb: "\<not> nullish reqBody"
    using field_defined_body by blast
  from a have c: "patch_emailCheck (patch_updateData reqBody) = Inr ()"
    by (simp add: patch_emailCheck_def patch_updateData_email)
  have n: "patch_updateData reqBody \<noteq> []"
    using a by (simp add: patch_updateData_nonempty)
  show "snd (patch_contact baseUrl R contactId reqBody sent) =
                sent @ [\<lparr>rq_method = PATCH,
                         rq_url = baseUrl @ endpoint_contacts @ ''/'' @ contactId,
                         rq_data = JObj [(''properties'',
                            JObj (updateContact_properties
                                    (JObj (patch_updateData reqBody))))]\<rparr>]"
    using nb n updateContact_sent[of "JObj (patch_updateData reqBody)" baseUrl R contactId sent]
    by (simp add: patch_contact_def c Let_def split_def split: sum.splits)
qed

text \<open>
  C5 as stated fails in two places: the body \<open>{email: ''}\<close> has the email field present
  with a value that does not match the pattern, yet the handler sends the update and
  answers 200; and a request without a parsed body, whose mapped field set is empty, is
  answered 500, not 400.
\<close>

theorem patch_contact_empty_email_counterexample:
  "field (JObj [(''email'', JStr [])]) ''email'' \<noteq> JUndefined
   \<and> emailRegex_test (field (JObj [(''email'', JStr [])]) ''email'') = Some False
   \<and> status (fst (patch_contact ''https://api.hubapi.com'' remoteAccepts ''101''
                     (JObj [(''email'', JStr [])]) [])) = 200
   \<and> snd (patch_contact ''https://api.hubapi.com'' remoteAccepts ''101''
             (JObj [(''email'', JStr [])]) [])
      = [\<lparr>rq_method = PATCH, rq_url = ''https://api.hubapi.com/crm/v3/objects/contacts/101'',
          rq_data = JObj [(''properties'', JObj [(''email'', JStr [])])]\<rparr>]
   \<and> status (fst (patch_contact ''https://api.hubapi.com'' remoteAccepts ''101''
                     JUndefined [])) = 500"
  by (simp add: getOwn_def emailRegex_test_def emailRegex_def patch_contact_def
        patch_updateData_def copyDefined_def patch_emailCheck_def updateContact_def
        updateContact_properties_def axios_def remoteAccepts_def endpoint_contacts_def Let_def
        contactsError_def)

theorem patch_contact_validation_witness:
  "nullish JUndefined
   \<and> status (fst (patch_contact ''https://api.hubapi.com'' remoteAccepts ''101''
                     JUndefined [])) = 500
   \<and> snd (patch_contact ''https://api.hubapi.com'' remoteAccepts ''101'' JUndefined []) = []
   \<and> truthy (field (JObj [(''phone'', JStr ''1''), (''email'', JStr ''not-an-email'')]) ''email'')
   \<and> emailRegex_test (field (JObj [(''phone'', JStr ''1''), (''email'', JStr ''not-an-email'')])
                        ''email'') = Some False
   \<and> status (fst (patch_contact ''https://api.hubapi.com'' remoteAccepts ''101''
                     (JObj [(''phone'', JStr ''1''), (''email'', JStr ''not-an-email'')]) [])) = 400
   \<and> snd (patch_contact ''https://api.hubapi.com'' remoteAccepts ''101''
             (JObj [(''phone'', JStr ''1''), (''email'', JStr ''not-an-email'')]) []) = []
   \<and> truthy (field (JObj [(''email'', JObj [(''toString'', JStr ''x'')])]) ''email'')
   \<and> emailRegex_test (field (JObj [(''email'', JObj [(''toString'', JStr ''x'')])]) ''email'')
       = None
   \<and> status (fst (patch_contact ''https://api.hubapi.com'' remoteAccepts ''101''
                     (JObj [(''email'', JObj [(''toString'', JStr ''x'')])]) [])) = 500
   \<and> \<not> nullish (JObj [(''nickname'', JStr ''x'')])
   \<and> status (fst (patch_contact ''https://api.hubapi.com'' remoteAccepts ''101''
                     (JObj [(''nickname'', JStr ''x'')]) [])) = 400
   \<and> snd (patch_contact ''https://api.hubapi.com'' remoteAccepts ''101''
             (JObj [(''nickname'', JStr ''x'')]) []) = []
   \<and> field (JObj [(''email'', JNull)]) ''email'' \<noteq> JUndefined
   \<and> \<not> truthy (field (JObj [(''email'', JNull)]) ''email'')
   \<and> length (snd (patch_contact ''https://api.hubapi.com'' remoteAccepts ''101''
             (JObj [(''email'', JNull)]) [])) = 1"
proof -
  let ?b1 = "JObj [(''phone'', JStr ''1''), (''email'', JStr ''not-an-email'')]"
  let ?b2 = "JObj [(''nickname'', JStr ''x'')]"
  let ?b3 = "JObj [(''email'', JNull)]"
  let ?b4 = "JObj [(''email'', JObj [(''toString'', JStr ''x'')])]"
  have t: "emailRegex_test (JStr ''not-an-email'') = Some False"
    by (simp add: emailRegex_test_def emailRegex_def notSpaceAt_def js_space_def)
  have u: "emailRegex_test (JObj [(''toString'', JStr ''x'')]) = None"
    by (simp add: emailRegex_test_def)
  show ?thesis
    using patch_contact_validation[of JUndefined "''https://api.hubapi.com''" remoteAccepts "''101''" "[]"]
          patch_contact_validation[of ?b1 "''https://api.hubapi.com''" remoteAccepts "''101''" "[]"]
          patch_contact_validation[of ?b2 "''https://api.hubapi.com''" remoteAccepts "''101''" "[]"]
          patch_contact_validation[of ?b3 "''https://api.hubapi.com''" remoteAccepts "''101''" "[]"]
          patch_contact_validation[of ?b4 "''https://api.hubapi.com''" remoteAccepts "''101''" "[]"]
    by (simp add: getOwn_def t u)
qed

section \<open>Where the code departs from its specification\<close>

text \<open>
  C1. The claim is that \<open>batchCreateContacts\<close> places, for each item, the properties object
  that \<open>createContact\<close> would transmit. The code does not strip in the batch path: for the
  item \<open>{firstName: 'A', lastName: 'B', email: 'a@b.co', phone: ''}\<close> the batch request
  transmits \<open>phone: ''\<close>, while \<open>createContact\<close> transmits no \<open>phone\<close> key.
\<close>

theorem batchCreateContacts_keeps_empty_values:
  "wire (JObj (batchCreateContacts_literal
           (JObj [(''firstName'', JStr ''A''), (''lastName'', JStr ''B''),
                  (''email'', JStr ''a@b.co''), (''phone'', JStr [])])))
     = JObj [(''firstname'', JStr ''A''), (''lastname'', JStr ''B''),
             (''email'', JStr ''a@b.co''), (''phone'', JStr [])]
   \<and> wire (JObj (createContact_properties
           (JObj [(''firstName'', JStr ''A''), (''lastName'', JStr ''B''),
                  (''email'', JStr ''a@b.co''), (''phone'', JStr [])])))
     = JObj [(''firstname'', JStr ''A''), (''lastname'', JStr ''B''),
             (''email'', JStr ''a@b.co'')]
   \<and> map (wire \<circ> rq_data)
         (snd (batchCreateContacts ''https://api.hubapi.com'' remoteAccepts
                 (JArr [JObj [(''firstName'', JStr ''A''), (''lastName'', JStr ''B''),
                              (''email'', JStr ''a@b.co''), (''phone'', JStr [])]]) []))
     = [JObj [(''inputs'', JArr [JObj [(''properties'',
          JObj [(''firstname'', JStr ''A''), (''lastname'', JStr ''B''),
                (''email'', JStr ''a@b.co''), (''phone'', JStr [])])]])]]
   \<and> map (wire \<circ> rq_data)
         (snd (createContact ''https://api.hubapi.com'' remoteAccepts
                 (JObj [(''firstName'', JStr ''A''), (''lastName'', JStr ''B''),
                        (''email'', JStr ''a@b.co''), (''phone'', JStr [])]) []))
     = [JObj [(''properties'',
          JObj [(''firstname'', JStr ''A''), (''lastname'', JStr ''B''),
                (''email'', JStr ''a@b.co'')])]]"
  by (simp add: batchCreateContacts_literal_def createContact_properties_filter
        createContact_literal_def emptyValue_def getOwn_def batchCreateContacts_def
        batchCreateContacts_inputs_def createContact_def axios_def remoteAccepts_def)

text \<open>
  C4. The claim is that a batch element failing the create-validation rule is rejected
  with 400 before any remote call. The batch handler checks only that the three required
  fields are truthy: an element with the email \<open>not-an-email\<close>, which the validation
  middleware of the create route rejects with 400, passes, the batch request is sent and
  the handler answers 201.
\<close>

theorem post_batch_skips_email_format:
  "validateContactData (JObj [(''firstName'', JStr ''A''), (''lastName'', JStr ''B''),
                              (''email'', JStr ''not-an-email'')])
     = Respond \<lparr>status = 400,
                body = JObj [(''success'', JBool False),
                             (''error'', JStr ''Invalid email format'')]\<rparr>
   \<and> status (fst (post_batch ''https://api.hubapi.com'' remoteAccepts
        (JObj [(''contacts'', JArr [JObj [(''firstName'', JStr ''A''), (''lastName'', JStr ''B''),
                                          (''email'', JStr ''not-an-email'')]])]) [])) = 201
   \<and> map (wire \<circ> rq_data) (snd (post_batch ''https://api.hubapi.com'' remoteAccepts
        (JObj [(''contacts'', JArr [JObj [(''firstName'', JStr ''A''), (''lastName'', JStr ''B''),
                                          (''email'', JStr ''not-an-email'')]])]) []))
     = [JObj [(''inputs'', JArr [JObj [(''properties'',
          JObj [(''firstname'', JStr ''A''), (''lastname'', JStr ''B''),
                (''email'', JStr ''not-an-email'')])]])]]"
  by (simp add: validateContactData_def emailRegex_test_def emailRegex_def notSpaceAt_def
        js_space_def getOwn_def post_batch_def batchCreateContacts_def
        batchCreateContacts_inputs_def batchCreateContacts_literal_def axios_def
        remoteAccepts_def)


theorem post_batch_skips_email_format_witness:
  "status (fst (post_batch ''https://api.hubapi.com'' remoteAccepts
        (JObj [(''contacts'', JArr [JObj [(''firstName'', JStr ''A''), (''lastName'', JStr ''B''),
                                          (''email'', JStr ''not-an-email'')]])]) [])) \<noteq> 400
   \<and> snd (post_batch ''https://api.hubapi.com'' remoteAccepts
        (JObj [(''contacts'', JArr [JObj [(''firstName'', JStr ''A''), (''lastName'', JStr ''B''),
                                          (''email'', JStr ''not-an-email'')]])]) []) \<noteq> []"
  using post_batch_skips_email_format by auto

lemma parseIntString_undefined: "parseIntString ''undefined'' = JNaN"
  by (simp add: parseIntString_def js_space_def digitValue_def)

lemma parseIntString_abc: "parseIntString ''abc'' = JNaN"
  by (simp add: parseIntString_def js_space_def digitValue_def)

text \<open>
  C9. The claim is that a malformed optional setting falls back to its default. With a
  valid token, the base URL \<open>http://example.com\<close> and the port \<open>abc\<close>, startup goes on and
  the warnings announce the defaults, but no value is assigned: the configuration has
  \<open>baseUrl\<close> undefined and \<open>port\<close> NaN.
\<close>

theorem loadConfig_malformed_optional:
  "loadConfig [''HUBSPOT_ACCESS_TOKEN'' \<mapsto> ''pat-na1-0123456789abcdef'',
               ''HUBSPOT_BASE_URL'' \<mapsto> ''http://example.com'',
               ''PORT'' \<mapsto> ''abc'']
     = ([Log (''Validating environment configuration...'' @ [CHR 0x0A]),
         Log ''HUBSPOT_ACCESS_TOKEN: Valid'',
         Log [],
         Log ''Configuration Warnings:'',
         Log ''   HUBSPOT_BASE_URL: Base URL must start with https://'',
         Log ''   Description: HubSpot API base URL'',
         Log ''   Using default: https://api.hubapi.com'',
         Log ''   PORT: Port must be a valid number'',
         Log ''   Description: Server port number'',
         Log ''   Using default: 3000'',
         Log [],
         Log (''Environment validation passed!'' @ [CHR 0x0A])],
        Inr \<lparr>cfg_accessToken = JStr ''pat-na1-0123456789abcdef'',
             cfg_baseUrl = JUndefined, cfg_port = JNaN\<rparr>)"
  by (simp add: loadConfig_def validateEnvironment_def REQUIRED_ENV_VARS_def
        OPTIONAL_ENV_VARS_def checkRequired_def checkOptional_def tokenValidator_def
        baseUrlValidator_def portValidator_def startsWith_def isError_def envValue_def
        showWarning_def getOwn_def parseInt_def parseIntString_abc parseIntString_undefined Let_def)

end
